theory Spec2Isabelle
  imports Complex_Main "HOL-Library.Word" "HOL-Library.Signed_Division"
begin

unbundle bit_operations_syntax

section \<open>Data model of go/vt/tabletserver/query\_splitter.go\<close>

subsection \<open>Machine integers\<close>

text \<open>
  Go's \<open>int64\<close> and \<open>uint64\<close> are both 64-bit words; signedness lives in the
  operations (\<open><s\<close>, \<open>sint\<close>, \<open>sdiv\<close> against \<open><\<close>, \<open>unat\<close>, \<open>div\<close>).
  Go's \<open>int\<close> is taken to be 64 bits wide (amd64, arm64).
\<close>

type_synonym int64 = "64 word"
type_synonym uint64 = "64 word"
type_synonym uint32 = "32 word"
type_synonym byte = "8 word"

subsection \<open>Package sqlparser: identifiers and the statement tree\<close>

datatype ColIdent = ColIdent string

definition NewColIdent :: "string \<Rightarrow> ColIdent" where
  "NewColIdent str = ColIdent str"

fun ColIdent_IsEmpty :: "ColIdent \<Rightarrow> bool" where
  "ColIdent_IsEmpty (ColIdent v) = (v = [])"

datatype TableIdent = TableIdent string

fun TableIdent_IsEmpty :: "TableIdent \<Rightarrow> bool" where
  "TableIdent_IsEmpty (TableIdent v) = (v = [])"

text \<open>
  The expression nodes that \<open>getWhereClause\<close> builds, and \<open>OtherExpr\<close> for every
  other node an original WHERE clause may consist of.
\<close>

datatype Expr =
    ComparisonExpr string Expr Expr
  | AndExpr Expr Expr
  | ParenExpr Expr
  | ColName ColIdent
  | ValArg string
  | OtherExpr string

record Where =
  Where_Type :: string
  Where_Expr :: Expr

datatype SimpleTableExpr = TableName TableIdent TableIdent | Subquery string

datatype TableExpr =
    AliasedTableExpr SimpleTableExpr string
  | ParenTableExpr string
  | JoinTableExpr string

text \<open>A nil pointer or nil slice of the Go struct is \<open>None\<close>.\<close>

record Select =
  Comments :: string
  Distinct :: string
  SelectExprs :: string
  From :: "TableExpr list"
  Where :: "Where option"
  GroupBy :: "Expr list option"
  Having :: "Where option"
  OrderBy :: "string option"
  Limit :: "string option"
  Lock :: string

datatype Statement = SelectStatement Select | OtherStatement string

text \<open>
  Modelled from the spec: the operator and clause keywords of package sqlparser are not
  in the source file; the spec writes the range predicate as
  \<open>splitColumn >= :startVar AND splitColumn < :endVar\<close>.
\<close>

definition GreaterEqualStr :: string where
  "GreaterEqualStr = ''>=''"

definition LessThanStr :: string where
  "LessThanStr = ''<''"

definition WhereStr :: string where
  "WhereStr = ''where''"

definition NewValArg :: "string \<Rightarrow> Expr" where
  "NewValArg bs = ValArg bs"

definition startBindVarName :: string where
  "startBindVarName = ''_splitquery_start''"

definition endBindVarName :: string where
  "endBindVarName = ''_splitquery_end''"

subsection \<open>Package schema\<close>

text \<open>
  Modelled from the spec: the schema engine is not in the source file. The spec gives
  its interface as \<open>lookupTable(name)\<close> returning the ordered primary-key columns and
  the indexes, each a list of columns, or not found.
\<close>

record Index =
  Index_Name :: string
  Columns :: "ColIdent list"

record Table =
  Name :: TableIdent
  PKColumns :: "ColIdent list"
  Indexes :: "Index list"

definition GetPKColumn :: "Table \<Rightarrow> nat \<Rightarrow> ColIdent" where
  "GetPKColumn table i = PKColumns table ! i"

type_synonym Engine = "TableIdent \<Rightarrow> Table option"

subsection \<open>Errors and panics\<close>

datatype error =
    CollaboratorError string
  | NotASelectStatement
  | UnsupportedQuery
  | NotASimpleTableExpression
  | TableNotFound
  | NoPrimaryKeys
  | SplitColumnNotIndexed ColIdent Table
  | PanicDivideByZero
  | PanicIndexOutOfRange
  | PanicNilPointer
  | PanicNilMap

text \<open>
  A Go function returning \<open>(v, err)\<close>: \<open>ret v err\<close> is the error when \<open>err\<close>
  is not nil and the value otherwise.
\<close>

definition ret :: "'a \<Rightarrow> error option \<Rightarrow> error + 'a" where
  "ret v err = (case err of None \<Rightarrow> Inr v | Some e \<Rightarrow> Inl e)"

definition div_int64 :: "int64 \<Rightarrow> int64 \<Rightarrow> error + int64" where
  "div_int64 a b =
     (if b = 0 then Inl PanicDivideByZero
      else Inr (word_of_int (sint a sdiv sint b)))"

definition div_uint64 :: "uint64 \<Rightarrow> uint64 \<Rightarrow> error + uint64" where
  "div_uint64 a b = (if b = 0 then Inl PanicDivideByZero else Inr (a div b))"

definition index :: "'a list \<Rightarrow> nat \<Rightarrow> error + 'a" where
  "index xs i = (if i < length xs then Inr (xs ! i) else Inl PanicIndexOutOfRange)"

subsection \<open>Package sqltypes and querypb\<close>

text \<open>
  Modelled from the spec: the column type tag is a closed enumeration over the
  families signed, unsigned, float, binary and other.
\<close>

datatype Type = SignedType | UnsignedType | FloatType | BinaryType | OtherType

definition IsSigned :: "Type \<Rightarrow> bool" where
  "IsSigned t = (t = SignedType)"

definition IsUnsigned :: "Type \<Rightarrow> bool" where
  "IsUnsigned t = (t = UnsignedType)"

definition IsFloat :: "Type \<Rightarrow> bool" where
  "IsFloat t = (t = FloatType)"

definition IsBinary :: "Type \<Rightarrow> bool" where
  "IsBinary t = (t = BinaryType)"

text \<open>
  Modelled from the spec: a value is the null value (the zero value
  \<open>sqltypes.Value{}\<close>, the "no bound" sentinel) or raw bytes tagged with a type.
\<close>

datatype Value = NULL | Value Type string

definition IsNull :: "Value \<Rightarrow> bool" where
  "IsNull v = (v = NULL)"

record Result =
  Rows :: "Value list list"

text \<open>
  The conversions of package sqltypes and of strconv are parameters of the model:
  \<open>'n\<close> is the type of native Go values held by a bind-variable map.
  \<open>ParseFloat_String v\<close> is \<open>strconv.ParseFloat(v.String(), 64)\<close>.
\<close>

record ('f, 'n) sqltypes =
  ParseInt64 :: "Value \<Rightarrow> error + int64"
  ParseUint64 :: "Value \<Rightarrow> error + uint64"
  ParseFloat_String :: "Value \<Rightarrow> error + 'f"
  BuildValue_int64 :: "int64 \<Rightarrow> error + Value"
  BuildValue_uint64 :: "uint64 \<Rightarrow> error + Value"
  BuildValue_float64 :: "'f \<Rightarrow> error + Value"
  BuildValue_bytes :: "byte list \<Rightarrow> error + Value"
  ToNative :: "Value \<Rightarrow> 'n"

text \<open>
  Go's \<open>float64\<close> is a parameter too: its arithmetic, the comparison with zero and
  the conversions from and to \<open>int64\<close>.
\<close>

record 'f float64 =
  float_sub :: "'f \<Rightarrow> 'f \<Rightarrow> 'f"
  float_div :: "'f \<Rightarrow> 'f \<Rightarrow> 'f"
  float_add :: "'f \<Rightarrow> 'f \<Rightarrow> 'f"
  float_mul :: "'f \<Rightarrow> 'f \<Rightarrow> 'f"
  float_is_zero :: "'f \<Rightarrow> bool"
  float_of_int64 :: "int64 \<Rightarrow> 'f"
  int64_of_float :: "'f \<Rightarrow> int64"

record sqlparser =
  Parse :: "string \<Rightarrow> error + Statement"
  sqlparser_String :: "Select \<Rightarrow> string"
  GetTableName :: "SimpleTableExpr \<Rightarrow> TableIdent"
  ColIdent_Equal :: "ColIdent \<Rightarrow> ColIdent \<Rightarrow> bool"

subsection \<open>Bind-variable maps live in a store\<close>

text \<open>
  A Go map is a reference: \<open>None\<close> is the nil map, \<open>Some r\<close> the map at address
  \<open>r\<close>. \<open>make\<close> hands out the next unused address.
\<close>

type_synonym 'n bindVars = "string \<rightharpoonup> 'n"

record 'n heap =
  maps :: "nat \<Rightarrow> 'n bindVars"
  nextRef :: nat

definition make_map :: "'n heap \<Rightarrow> nat \<times> 'n heap" where
  "make_map h = (nextRef h, h\<lparr>maps := (maps h)(nextRef h := Map.empty), nextRef := Suc (nextRef h)\<rparr>)"

definition deref :: "'n heap \<Rightarrow> nat option \<Rightarrow> 'n bindVars" where
  "deref h m = (case m of None \<Rightarrow> Map.empty | Some r \<Rightarrow> maps h r)"

definition mapassign :: "'n heap \<Rightarrow> nat option \<Rightarrow> string \<Rightarrow> 'n \<Rightarrow> error + 'n heap" where
  "mapassign h m k v =
     (case m of
        None \<Rightarrow> Inl PanicNilMap
      | Some r \<Rightarrow> Inr (h\<lparr>maps := (maps h)(r := (maps h r)(k \<mapsto> v))\<rparr>))"

text \<open>
  Lines 126 to 129: a fresh map, then every entry of the source map assigned to it.
  The order of a Go map's iteration does not show in the result, the keys being distinct.
\<close>

definition copy_map :: "'n heap \<Rightarrow> nat option \<Rightarrow> nat \<times> 'n heap" where
  "copy_map h src =
     (let (r, h1) = make_map h
      in (r, h1\<lparr>maps := (maps h1)(r := maps h1 r ++ deref h1 src)\<rparr>))"

subsection \<open>The splitter and its output\<close>

record QuerySplit =
  Sql :: string
  BindVariables :: "nat option"
  RowCount :: int64

record QuerySplitter =
  sql :: string
  bindVariables :: "nat option"
  splitCount :: int64
  se :: Engine
  sel :: "Select option"
  tableName :: TableIdent
  splitColumn :: ColIdent
  rowCount :: int64

section \<open>The operations\<close>

text \<open>
  A method with a pointer receiver returns the receiver it leaves behind next to its
  result, on the error paths as well.
\<close>

definition NewQuerySplitter ::
  "string \<Rightarrow> nat option \<Rightarrow> string \<Rightarrow> int64 \<Rightarrow> Engine \<Rightarrow> QuerySplitter" where
  "NewQuerySplitter sql0 bindVariables0 splitColumn0 splitCount0 se0 =
     (let splitCount1 = (if splitCount0 <s 1 then 1 else splitCount0)
      in \<lparr>sql = sql0, bindVariables = bindVariables0, splitCount = splitCount1, se = se0,
          sel = None, tableName = TableIdent [], splitColumn = NewColIdent splitColumn0,
          rowCount = 0\<rparr>)"

definition validateQuery :: "sqlparser \<Rightarrow> QuerySplitter \<Rightarrow> error option \<times> QuerySplitter" where
  "validateQuery sp qs =
     (case Parse sp (sql qs) of
        Inl err \<Rightarrow> (Some err, qs)
      | Inr statement \<Rightarrow>
          (case statement of
             OtherStatement _ \<Rightarrow> (Some NotASelectStatement, qs\<lparr>sel := None\<rparr>)
           | SelectStatement s \<Rightarrow>
               (let qs1 = qs\<lparr>sel := Some s\<rparr> in
                if Distinct s \<noteq> [] \<or> GroupBy s \<noteq> None \<or>
                   Having s \<noteq> None \<or> length (From s) \<noteq> 1 \<or>
                   OrderBy s \<noteq> None \<or> Limit s \<noteq> None \<or>
                   Lock s \<noteq> []
                then (Some UnsupportedQuery, qs1)
                else
                  (case From s ! 0 of
                     AliasedTableExpr expr _ \<Rightarrow>
                       (let qs2 = qs1\<lparr>tableName := GetTableName sp expr\<rparr> in
                        if TableIdent_IsEmpty (tableName qs2)
                        then (Some NotASimpleTableExpression, qs2)
                        else
                          (case se qs2 (tableName qs2) of
                             None \<Rightarrow> (Some TableNotFound, qs2)
                           | Some table \<Rightarrow>
                               if length (PKColumns table) = 0
                               then (Some NoPrimaryKeys, qs2)
                               else if \<not> ColIdent_IsEmpty (splitColumn qs2)
                               then
                                 (if list_ex (\<lambda>index. list_ex (\<lambda>column.
                                       ColIdent_Equal sp (splitColumn qs2) column) (Columns index))
                                     (Indexes table)
                                  then (None, qs2)
                                  else (Some (SplitColumnNotIndexed (splitColumn qs2) table), qs2))
                               else (None, qs2\<lparr>splitColumn := GetPKColumn table 0\<rparr>)))
                   | _ \<Rightarrow> (Some UnsupportedQuery, qs1)))))"

text \<open>
  Lines 215, 245 and 275, the same condition three times: \<open>Inr None\<close> when the
  function returns the empty list, the two cells otherwise. Indexing a row that is too
  short panics, and \<open>||\<close> evaluates from the left.
\<close>

definition minMaxCells :: "Result option \<Rightarrow> error + (Value \<times> Value) option" where
  "minMaxCells pkMinMax =
     (case pkMinMax of
        None \<Rightarrow> Inr None
      | Some r \<Rightarrow>
          if length (Rows r) \<noteq> 1 then Inr None
          else
            (case index (Rows r ! 0) 0 of
               Inl e \<Rightarrow> Inl e
             | Inr c0 \<Rightarrow>
                 if IsNull c0 then Inr None
                 else
                   (case index (Rows r ! 0) 1 of
                      Inl e \<Rightarrow> Inl e
                    | Inr c1 \<Rightarrow> if IsNull c1 then Inr None else Inr (Some (c0, c1)))))"

text \<open>
  The four loops of lines 233, 263, 291 and 309 share one skeleton: a counter starting
  at 1 and running while it is below the split count, each round building one value,
  returning at the first error and appending otherwise. \<open>forSigned\<close> is the loop
  with an \<open>int64\<close> or \<open>int\<close> counter, \<open>forUnsigned\<close> the one with a
  \<open>uint64\<close> counter.
\<close>

function forSigned ::
  "(int64 \<Rightarrow> error + Value) \<Rightarrow> int64 \<Rightarrow> int64 \<Rightarrow> Value list \<Rightarrow> error + Value list" where
  "forSigned body sc i boundaries =
     (if i <s sc
      then (case body i of
              Inl err \<Rightarrow> Inl err
            | Inr v \<Rightarrow> forSigned body sc (i + 1) (boundaries @ [v]))
      else Inr boundaries)"
  by pat_completeness auto
termination
proof (relation "measure (\<lambda>(body, sc, i, boundaries). nat (sint sc - sint i))")
  show "wf (measure (\<lambda>(body :: int64 \<Rightarrow> error + Value, sc :: int64, i :: int64,
      boundaries :: Value list). nat (sint sc - sint i)))"
    by simp
next
  fix body :: "int64 \<Rightarrow> error + Value" and sc i :: int64
    and boundaries :: "Value list" and x2 :: Value
  assume lt: "i <s sc"
  have up: "sint sc < 2 ^ 63"
    using sint_lt [of sc] by simp
  have lo: "- (2 ^ 63) \<le> sint i"
    using sint_ge [of i] by simp
  have "sint (i + 1) = signed_take_bit 63 (sint i + 1)"
    by (simp add: sint_word_ariths)
  also have "\<dots> = sint i + 1"
    using lt up lo by (intro signed_take_bit_int_eq_self) (auto simp: word_sless_alt)
  finally have "sint (i + 1) = sint i + 1" .
  then show "((body, sc, i + 1, boundaries @ [x2]), (body, sc, i, boundaries))
      \<in> measure (\<lambda>(body, sc, i, boundaries). nat (sint sc - sint i))"
    using lt by (simp add: word_sless_alt)
qed

function forUnsigned ::
  "(uint64 \<Rightarrow> error + Value) \<Rightarrow> uint64 \<Rightarrow> uint64 \<Rightarrow> Value list \<Rightarrow> error + Value list" where
  "forUnsigned body sc i boundaries =
     (if i < sc
      then (case body i of
              Inl err \<Rightarrow> Inl err
            | Inr v \<Rightarrow> forUnsigned body sc (i + 1) (boundaries @ [v]))
      else Inr boundaries)"
  by pat_completeness auto
termination
proof (relation "measure (\<lambda>(body, sc, i, boundaries). unat sc - unat i)")
  show "wf (measure (\<lambda>(body :: uint64 \<Rightarrow> error + Value, sc :: uint64, i :: uint64,
      boundaries :: Value list). unat sc - unat i))"
    by simp
next
  fix body :: "uint64 \<Rightarrow> error + Value" and sc i :: uint64
    and boundaries :: "Value list" and x2 :: Value
  assume lt: "i < sc"
  have up: "unat sc < 2 ^ 64"
    using unsigned_less [of sc, where ?'a = nat] by simp
  have "unat (i + 1) = (unat i + 1) mod 2 ^ 64"
    by (simp add: unat_word_ariths)
  also have "\<dots> = unat i + 1"
    using lt up by (simp add: word_less_nat_alt)
  finally have "unat (i + 1) = unat i + 1" .
  then show "((body, sc, i + 1, boundaries @ [x2]), (body, sc, i, boundaries))
      \<in> measure (\<lambda>(body, sc, i, boundaries). unat sc - unat i)"
    using lt by (simp add: word_less_nat_alt)
qed

definition splitBoundariesIntColumn ::
  "('f, 'n) sqltypes \<Rightarrow> QuerySplitter \<Rightarrow> Result option \<Rightarrow> (error + Value list) \<times> QuerySplitter" where
  "splitBoundariesIntColumn st qs pkMinMax =
     (case minMaxCells pkMinMax of
        Inl e \<Rightarrow> (Inl e, qs)
      | Inr None \<Rightarrow> (Inr [], qs)
      | Inr (Some (minNumeric, maxNumeric)) \<Rightarrow>
          (case ParseInt64 st minNumeric of
             Inl err \<Rightarrow> (Inl err, qs)
           | Inr mn \<Rightarrow>
               (case ParseInt64 st maxNumeric of
                  Inl err \<Rightarrow> (Inl err, qs)
                | Inr mx \<Rightarrow>
                    (let err = (None :: error option) in
                     case div_int64 (mx - mn) (splitCount qs) of
                       Inl e \<Rightarrow> (Inl e, qs)
                     | Inr interval \<Rightarrow>
                         if interval = 0 then (ret [] err, qs)
                         else
                           (let qs1 = qs\<lparr>rowCount := interval\<rparr>
                            in (forSigned (\<lambda>i. BuildValue_int64 st (mn + interval * i))
                                  (splitCount qs1) 1 [], qs1))))))"

definition splitBoundariesUintColumn ::
  "('f, 'n) sqltypes \<Rightarrow> QuerySplitter \<Rightarrow> Result option \<Rightarrow> (error + Value list) \<times> QuerySplitter" where
  "splitBoundariesUintColumn st qs pkMinMax =
     (case minMaxCells pkMinMax of
        Inl e \<Rightarrow> (Inl e, qs)
      | Inr None \<Rightarrow> (Inr [], qs)
      | Inr (Some (minNumeric, maxNumeric)) \<Rightarrow>
          (case ParseUint64 st minNumeric of
             Inl err \<Rightarrow> (Inl err, qs)
           | Inr mn \<Rightarrow>
               (case ParseUint64 st maxNumeric of
                  Inl err \<Rightarrow> (Inl err, qs)
                | Inr mx \<Rightarrow>
                    (let err = (None :: error option) in
                     case div_uint64 (mx - mn) (splitCount qs) of
                       Inl e \<Rightarrow> (Inl e, qs)
                     | Inr interval \<Rightarrow>
                         if interval = 0 then (ret [] err, qs)
                         else
                           (let qs1 = qs\<lparr>rowCount := interval\<rparr>
                            in (forUnsigned (\<lambda>i. BuildValue_uint64 st (mn + interval * i))
                                  (splitCount qs1) 1 [], qs1))))))"

definition splitBoundariesFloatColumn ::
  "'f float64 \<Rightarrow> ('f, 'n) sqltypes \<Rightarrow> QuerySplitter \<Rightarrow> Result option \<Rightarrow>
     (error + Value list) \<times> QuerySplitter" where
  "splitBoundariesFloatColumn fl st qs pkMinMax =
     (case minMaxCells pkMinMax of
        Inl e \<Rightarrow> (Inl e, qs)
      | Inr None \<Rightarrow> (Inr [], qs)
      | Inr (Some (minNumeric, maxNumeric)) \<Rightarrow>
          (case ParseFloat_String st minNumeric of
             Inl err \<Rightarrow> (Inl err, qs)
           | Inr mn \<Rightarrow>
               (case ParseFloat_String st maxNumeric of
                  Inl err \<Rightarrow> (Inl err, qs)
                | Inr mx \<Rightarrow>
                    (let err = (None :: error option);
                         interval = float_div fl (float_sub fl mx mn)
                                      (float_of_int64 fl (splitCount qs))
                     in if float_is_zero fl interval then (ret [] err, qs)
                        else
                          (let qs1 = qs\<lparr>rowCount := int64_of_float fl interval\<rparr>
                           in (forSigned (\<lambda>i. BuildValue_float64 st
                                    (float_add fl mn (float_mul fl interval (float_of_int64 fl i))))
                                 (splitCount qs1) 1 [], qs1))))))"

text \<open>\<open>binary.BigEndian.PutUint32\<close> into a buffer of four bytes.\<close>

definition PutUint32 :: "uint32 \<Rightarrow> byte list" where
  "PutUint32 v = [ucast (drop_bit 24 v), ucast (drop_bit 16 v), ucast (drop_bit 8 v), ucast v]"

definition splitBoundariesStringColumn ::
  "('f, 'n) sqltypes \<Rightarrow> QuerySplitter \<Rightarrow> (error + Value list) \<times> QuerySplitter" where
  "splitBoundariesStringColumn st qs =
     (let splitRange = (0xFFFFFFFF :: int64) + 1 in
      case div_int64 splitRange (splitCount qs) of
        Inl e \<Rightarrow> (Inl e, qs)
      | Inr splitSize \<Rightarrow>
          (let qs1 = qs\<lparr>rowCount := splitSize\<rparr>
           in (forSigned (\<lambda>i. BuildValue_bytes st
                    (PutUint32 ((ucast splitSize :: uint32) * (ucast i :: uint32))))
                 (splitCount qs1) 1 [], qs1)))"

definition splitBoundaries ::
  "'f float64 \<Rightarrow> ('f, 'n) sqltypes \<Rightarrow> QuerySplitter \<Rightarrow> Type \<Rightarrow> Result option \<Rightarrow>
     (error + Value list) \<times> QuerySplitter" where
  "splitBoundaries fl st qs columnType pkMinMax =
     (if IsSigned columnType then splitBoundariesIntColumn st qs pkMinMax
      else if IsUnsigned columnType then splitBoundariesUintColumn st qs pkMinMax
      else if IsFloat columnType then splitBoundariesFloatColumn fl st qs pkMinMax
      else if IsBinary columnType then splitBoundariesStringColumn st qs
      else (Inr [], qs))"

text \<open>
  \<open>getWhereClause\<close> writes into the map it is handed, so it takes the store and
  returns it. \<open>startClause\<close> is nil exactly when \<open>start\<close> is null, and
  \<open>endClause\<close> exactly when \<open>end\<close> is.
\<close>

definition getWhereClause ::
  "('f, 'n) sqltypes \<Rightarrow> QuerySplitter \<Rightarrow> Where option \<Rightarrow> nat option \<Rightarrow> Value \<Rightarrow> Value \<Rightarrow>
     'n heap \<Rightarrow> error + (Where option \<times> 'n heap)" where
  "getWhereClause st qs whereClause bindVars start end h =
     (if IsNull start \<and> IsNull end then Inr (whereClause, h)
      else
        (let pk = ColName (splitColumn qs);
             startClause = ComparisonExpr GreaterEqualStr pk (NewValArg ('':'' @ startBindVarName));
             endClause = ComparisonExpr LessThanStr pk (NewValArg ('':'' @ endBindVarName))
         in case (if \<not> IsNull start
                  then mapassign h bindVars startBindVarName (ToNative st start)
                  else Inr h) of
              Inl e \<Rightarrow> Inl e
            | Inr h1 \<Rightarrow>
                (case (if \<not> IsNull end
                       then mapassign h1 bindVars endBindVarName (ToNative st end)
                       else Inr h1) of
                   Inl e \<Rightarrow> Inl e
                 | Inr h2 \<Rightarrow>
                     (let clauses =
                            (if IsNull start then endClause
                             else if IsNull end then startClause
                             else AndExpr startClause endClause);
                          clauses1 =
                            (case whereClause of
                               Some w \<Rightarrow> AndExpr (ParenExpr (Where_Expr w)) (ParenExpr clauses)
                             | None \<Rightarrow> clauses)
                      in Inr (Some \<lparr>Where_Type = WhereStr, Where_Expr = clauses1\<rparr>, h2)))))"

text \<open>
  The loop of lines 125 to 138 over the boundaries: \<open>s\<close> is the statement
  \<open>qs.sel\<close> points to, whose WHERE clause every round overwrites.
\<close>

fun splitLoop ::
  "('f, 'n) sqltypes \<Rightarrow> sqlparser \<Rightarrow> QuerySplitter \<Rightarrow> Where option \<Rightarrow> Value list \<Rightarrow> Value \<Rightarrow>
     Select \<Rightarrow> QuerySplit list \<Rightarrow> 'n heap \<Rightarrow> error + (QuerySplit list \<times> Select \<times> 'n heap)" where
  "splitLoop st sp qs whereClause [] start s splits h = Inr (splits, s, h)"
| "splitLoop st sp qs whereClause (end # boundaries) start s splits h =
     (let (bindVars, h1) = copy_map h (bindVariables qs) in
      case getWhereClause st qs whereClause (Some bindVars) start end h1 of
        Inl e \<Rightarrow> Inl e
      | Inr (w, h2) \<Rightarrow>
          (let s1 = s\<lparr>Where := w\<rparr>;
               split = \<lparr>Sql = sqlparser_String sp s1, BindVariables = Some bindVars,
                        RowCount = rowCount qs\<rparr>
           in splitLoop st sp qs whereClause boundaries end s1 (splits @ [split]) h2))"

definition split ::
  "'f float64 \<Rightarrow> ('f, 'n) sqltypes \<Rightarrow> sqlparser \<Rightarrow> QuerySplitter \<Rightarrow> Type \<Rightarrow> Result option \<Rightarrow>
     'n heap \<Rightarrow> (error + QuerySplit list) \<times> QuerySplitter \<times> 'n heap" where
  "split fl st sp qs columnType pkMinMax h =
     (case splitBoundaries fl st qs columnType pkMinMax of
        (Inl err, qs1) \<Rightarrow> (Inl err, qs1, h)
      | (Inr boundaries, qs1) \<Rightarrow>
          if length boundaries = 0
          then (Inr [\<lparr>Sql = sql qs1, BindVariables = bindVariables qs1, RowCount = 0\<rparr>], qs1, h)
          else
            (case sel qs1 of
               None \<Rightarrow> (Inl PanicNilPointer, qs1, h)
             | Some s \<Rightarrow>
                 (let whereClause = Where s in
                  case splitLoop st sp qs1 whereClause (boundaries @ [NULL]) NULL s [] h of
                    Inl e \<Rightarrow> (Inl e, qs1, h)
                  | Inr (splits, s1, h1) \<Rightarrow>
                      (Inr splits, qs1\<lparr>sel := Some (s1\<lparr>Where := whereClause\<rparr>)\<rparr>, h1))))"

section \<open>Reference collaborators\<close>

text \<open>
  One instance of the collaborator interfaces, on which the scenarios of the
  specification are run: decimal integers for \<open>ParseInt64\<close>, \<open>ParseUint64\<close> and
  \<open>BuildValue\<close>, a value as its own native form, a printer for the statement tree, and
  a parser that knows the statements of the scenarios. The theorems below hold for every
  instance; this one only shows that their hypotheses can be met.
\<close>

definition digit_val :: "char \<Rightarrow> int option" where
  "digit_val c =
     (let n = (of_char c :: int) in if 48 \<le> n \<and> n \<le> 57 then Some (n - 48) else None)"

fun parse_digits :: "string \<Rightarrow> int \<Rightarrow> int option" where
  "parse_digits [] acc = Some acc"
| "parse_digits (c # cs) acc =
     (case digit_val c of None \<Rightarrow> None | Some d \<Rightarrow> parse_digits cs (10 * acc + d))"

definition parse_decimal :: "string \<Rightarrow> int option" where
  "parse_decimal s =
     (case s of
        [] \<Rightarrow> None
      | c # cs \<Rightarrow>
          if c = CHR ''-''
          then (if cs = [] then None else map_option (\<lambda>n. - n) (parse_digits cs 0))
          else parse_digits s 0)"

fun show_digits :: "nat \<Rightarrow> int \<Rightarrow> string" where
  "show_digits 0 n = []"
| "show_digits (Suc fuel) n =
     (if n < 10 then [''0123456789'' ! nat n]
      else show_digits fuel (n div 10) @ [''0123456789'' ! nat (n mod 10)])"

definition show_decimal :: "int \<Rightarrow> string" where
  "show_decimal k = (if k < 0 then CHR ''-'' # show_digits 20 (- k) else show_digits 20 k)"

definition decimal_ParseInt64 :: "Value \<Rightarrow> error + int64" where
  "decimal_ParseInt64 v =
     (case v of
        NULL \<Rightarrow> Inl (CollaboratorError ''invalid syntax'')
      | Value t s \<Rightarrow>
          (case parse_decimal s of
             None \<Rightarrow> Inl (CollaboratorError ''invalid syntax'')
           | Some k \<Rightarrow>
               if - (2 ^ 63) \<le> k \<and> k < 2 ^ 63 then Inr (word_of_int k)
               else Inl (CollaboratorError ''value out of range'')))"

definition decimal_ParseUint64 :: "Value \<Rightarrow> error + uint64" where
  "decimal_ParseUint64 v =
     (case v of
        NULL \<Rightarrow> Inl (CollaboratorError ''invalid syntax'')
      | Value t s \<Rightarrow>
          (case parse_digits s 0 of
             None \<Rightarrow> Inl (CollaboratorError ''invalid syntax'')
           | Some n \<Rightarrow>
               if s \<noteq> [] \<and> n < 2 ^ 64 then Inr (word_of_int n)
               else Inl (CollaboratorError ''value out of range'')))"

definition decimal_sqltypes :: "(rat, Value) sqltypes" where
  "decimal_sqltypes =
     \<lparr>ParseInt64 = decimal_ParseInt64,
      ParseUint64 = decimal_ParseUint64,
      ParseFloat_String = (\<lambda>v. case v of
           NULL \<Rightarrow> Inl (CollaboratorError ''invalid syntax'')
         | Value t s \<Rightarrow>
             (case parse_decimal s of
                None \<Rightarrow> Inl (CollaboratorError ''invalid syntax'')
              | Some k \<Rightarrow> Inr (of_int k))),
      BuildValue_int64 = (\<lambda>x. Inr (Value SignedType (show_decimal (sint x)))),
      BuildValue_uint64 = (\<lambda>x. Inr (Value UnsignedType (show_decimal (uint x)))),
      BuildValue_float64 = (\<lambda>x. Inr (Value FloatType
           (show_decimal (fst (quotient_of x)) @ ''/'' @ show_decimal (snd (quotient_of x))))),
      BuildValue_bytes = (\<lambda>bs. Inr (Value BinaryType (map (\<lambda>b. char_of (unat b)) bs))),
      ToNative = (\<lambda>v. v)\<rparr>"

text \<open>Arithmetic without rounding, in place of IEEE 754 doubles.\<close>

definition exact_float64 :: "rat float64" where
  "exact_float64 =
     \<lparr>float_sub = (\<lambda>a b. a - b),
      float_div = (\<lambda>a b. a / b),
      float_add = (\<lambda>a b. a + b),
      float_mul = (\<lambda>a b. a * b),
      float_is_zero = (\<lambda>a. a = 0),
      float_of_int64 = (\<lambda>w. of_int (sint w)),
      int64_of_float = (\<lambda>a. word_of_int (sgn (fst (quotient_of a)) *
           (\<bar>fst (quotient_of a)\<bar> div snd (quotient_of a))))\<rparr>"

fun render_Expr :: "Expr \<Rightarrow> string" where
  "render_Expr (ComparisonExpr operator l r) = render_Expr l @ '' '' @ operator @ '' '' @ render_Expr r"
| "render_Expr (AndExpr l r) = render_Expr l @ '' and '' @ render_Expr r"
| "render_Expr (ParenExpr e) = ''('' @ render_Expr e @ '')''"
| "render_Expr (ColName (ColIdent c)) = c"
| "render_Expr (ValArg a) = a"
| "render_Expr (OtherExpr t) = t"

fun render_TableExpr :: "TableExpr \<Rightarrow> string" where
  "render_TableExpr (AliasedTableExpr (TableName (TableIdent n) (TableIdent q)) a) =
     (if q = [] then n else q @ ''.'' @ n) @ (if a = [] then [] else '' as '' @ a)"
| "render_TableExpr (AliasedTableExpr (Subquery t) a) = t @ (if a = [] then [] else '' as '' @ a)"
| "render_TableExpr (ParenTableExpr t) = t"
| "render_TableExpr (JoinTableExpr t) = t"

definition render_Select :: "Select \<Rightarrow> string" where
  "render_Select s =
     ''select '' @ Comments s @ Distinct s @ SelectExprs s @ '' from '' @
     concat (map render_TableExpr (From s)) @
     (case Where s of None \<Rightarrow> [] | Some w \<Rightarrow> '' '' @ Where_Type w @ '' '' @ render_Expr (Where_Expr w)) @
     (case GroupBy s of None \<Rightarrow> [] | Some g \<Rightarrow> '' group by '' @ concat (map render_Expr g)) @
     (case Having s of None \<Rightarrow> [] | Some w \<Rightarrow> '' '' @ Where_Type w @ '' '' @ render_Expr (Where_Expr w)) @
     (case OrderBy s of None \<Rightarrow> [] | Some t \<Rightarrow> t) @
     (case Limit s of None \<Rightarrow> [] | Some t \<Rightarrow> t) @
     Lock s"

definition select_from_t :: Select where
  "select_from_t =
     \<lparr>Comments = [], Distinct = [], SelectExprs = ''*'',
      From = [AliasedTableExpr (TableName (TableIdent ''t'') (TableIdent [])) []],
      Where = None, GroupBy = None, Having = None, OrderBy = None, Limit = None, Lock = []\<rparr>"

definition select_from_t_where :: Select where
  "select_from_t_where =
     select_from_t\<lparr>Where := Some \<lparr>Where_Type = WhereStr, Where_Expr = OtherExpr ''a = 1 or b = 2''\<rparr>\<rparr>"

definition scenario_sqlparser :: sqlparser where
  "scenario_sqlparser =
     \<lparr>Parse = (\<lambda>q.
         if q = ''select * from t'' then Inr (SelectStatement select_from_t)
         else if q = ''select * from t where a = 1 or b = 2''
           then Inr (SelectStatement select_from_t_where)
         else if q = ''select * from t order by id''
           then Inr (SelectStatement (select_from_t\<lparr>OrderBy := Some '' order by id''\<rparr>))
         else if q = ''select * from t join u''
           then Inr (SelectStatement (select_from_t\<lparr>From := [JoinTableExpr ''t join u'']\<rparr>))
         else if q = ''delete from t'' then Inr (OtherStatement ''delete from t'')
         else Inl (CollaboratorError ''syntax error'')),
      sqlparser_String = render_Select,
      GetTableName = (\<lambda>e. case e of
           TableName n q \<Rightarrow> if TableIdent_IsEmpty q then n else TableIdent []
         | Subquery _ \<Rightarrow> TableIdent []),
      ColIdent_Equal = (\<lambda>a b. a = b)\<rparr>"

definition table_t :: Table where
  "table_t =
     \<lparr>Name = TableIdent ''t'', PKColumns = [ColIdent ''id''],
      Indexes = [\<lparr>Index_Name = ''PRIMARY'', Columns = [ColIdent ''id'']\<rparr>,
                 \<lparr>Index_Name = ''by_name'', Columns = [ColIdent ''name'', ColIdent ''age'']\<rparr>]\<rparr>"

definition scenario_schema :: Engine where
  "scenario_schema tn = (if tn = TableIdent ''t'' then Some table_t else None)"

definition empty_heap :: "Value heap" where
  "empty_heap = \<lparr>maps = (\<lambda>r. Map.empty), nextRef = 0\<rparr>"

text \<open>
  The splitter of the scenarios: the query \<open>select * from t\<close> with no bind variables
  and no requested split column, validated against the schema above.
\<close>

definition scenario_splitter :: "int64 \<Rightarrow> QuerySplitter" where
  "scenario_splitter n =
     snd (validateQuery scenario_sqlparser
       (NewQuerySplitter ''select * from t'' None [] n scenario_schema))"



text \<open>A one-row result holding the decimal texts of a minimum and a maximum.\<close>

definition minMaxResult :: "Type \<Rightarrow> string \<Rightarrow> string \<Rightarrow> Result option" where
  "minMaxResult t lo hi = Some \<lparr>Rows = [[Value t lo, Value t hi]]\<rparr>"

section \<open>The validator's rules as the specification words them\<close>

text \<open>
  Section 4.1 of the specification: the statement parses and is a SELECT; no DISTINCT,
  GROUP BY, HAVING, ORDER BY, LIMIT or locking clause; exactly one table reference, a
  plain aliased table expression with a resolvable name; the table exists in the schema
  and has at least one primary-key column.
\<close>

definition spec_resolves :: "sqlparser \<Rightarrow> QuerySplitter \<Rightarrow> Select \<Rightarrow> SimpleTableExpr \<Rightarrow> Table \<Rightarrow> bool" where
  "spec_resolves sp qs s expr table \<longleftrightarrow>
     Parse sp (sql qs) = Inr (SelectStatement s) \<and>
     Distinct s = [] \<and> GroupBy s = None \<and> Having s = None \<and>
     OrderBy s = None \<and> Limit s = None \<and> Lock s = [] \<and>
     (\<exists>alias. From s = [AliasedTableExpr expr alias]) \<and>
     \<not> TableIdent_IsEmpty (GetTableName sp expr) \<and>
     se qs (GetTableName sp expr) = Some table \<and>
     PKColumns table \<noteq> []"

text \<open>The column appears in some index, primary or secondary, of the table.\<close>

definition spec_indexed :: "sqlparser \<Rightarrow> ColIdent \<Rightarrow> Table \<Rightarrow> bool" where
  "spec_indexed sp col table \<longleftrightarrow>
     (\<exists>index \<in> set (Indexes table). \<exists>column \<in> set (Columns index). ColIdent_Equal sp col column)"

section \<open>The binary boundaries as the specification words them\<close>

text \<open>
  Section 4.2 of the specification: the big-endian 4-byte encoding of a number, the most
  significant byte first. A byte keeps the low eight bits of what it is given.
\<close>

definition be32 :: "nat \<Rightarrow> byte list" where
  "be32 n = [of_nat (n div 2 ^ 24), of_nat (n div 2 ^ 16), of_nat (n div 2 ^ 8), of_nat n]"

section \<open>The unsigned boundary computation in checked arithmetic\<close>

text \<open>
  Section 4.2 of the specification asks that, for an unsigned column, division by zero
  and underflow never occur. Go's \<open>uint64\<close> operations do not report either: a
  difference below zero, a sum or a product of \<open>2^64\<close> or more wrap around silently,
  and a division by zero panics. To say that none of this happens, the four operations
  of \<open>splitBoundariesUintColumn\<close> are given a checked form that stops with a
  \<open>fault\<close> where the exact result is not the 64-bit one or the divisor is zero, and
  lines 243 to 270 are written once more over the checked operations. The checked function
  returns a fault, or else what the function of the source returns.
\<close>

datatype fault = DivisionByZero | SubtractionUnderflow | MultiplicationOverflow | AdditionOverflow

definition checked_sub :: "uint64 \<Rightarrow> uint64 \<Rightarrow> fault + uint64" where
  "checked_sub a b = (if unat a < unat b then Inl SubtractionUnderflow else Inr (a - b))"

definition checked_div :: "uint64 \<Rightarrow> uint64 \<Rightarrow> fault + uint64" where
  "checked_div a b = (if b = 0 then Inl DivisionByZero else Inr (a div b))"

definition checked_mul :: "uint64 \<Rightarrow> uint64 \<Rightarrow> fault + uint64" where
  "checked_mul a b = (if 2 ^ 64 \<le> unat a * unat b then Inl MultiplicationOverflow else Inr (a * b))"

definition checked_add :: "uint64 \<Rightarrow> uint64 \<Rightarrow> fault + uint64" where
  "checked_add a b = (if 2 ^ 64 \<le> unat a + unat b then Inl AdditionOverflow else Inr (a + b))"

text \<open>
  The loop of line 263 with a body that may stop with a fault: a fault ends the loop, an
  error of \<open>BuildValue\<close> ends it as in \<open>forUnsigned\<close>.
\<close>

function forUnsigned_checked ::
  "(uint64 \<Rightarrow> fault + (error + Value)) \<Rightarrow> uint64 \<Rightarrow> uint64 \<Rightarrow> Value list \<Rightarrow>
     fault + (error + Value list)" where
  "forUnsigned_checked body sc i boundaries =
     (if i < sc
      then (case body i of
              Inl f \<Rightarrow> Inl f
            | Inr (Inl err) \<Rightarrow> Inr (Inl err)
            | Inr (Inr v) \<Rightarrow> forUnsigned_checked body sc (i + 1) (boundaries @ [v]))
      else Inr (Inr boundaries))"
  by pat_completeness auto
termination
proof (relation "measure (\<lambda>(body, sc, i, boundaries). unat sc - unat i)")
  show "wf (measure (\<lambda>(body :: uint64 \<Rightarrow> fault + (error + Value), sc :: uint64, i :: uint64,
      boundaries :: Value list). unat sc - unat i))"
    by simp
next
  fix body :: "uint64 \<Rightarrow> fault + (error + Value)" and sc i :: uint64
    and boundaries :: "Value list" and x2 :: "error + Value" and x3 :: Value
  assume lt: "i < sc"
  have up: "unat sc < 2 ^ 64"
    using unsigned_less [of sc, where ?'a = nat] by simp
  have "unat (i + 1) = (unat i + 1) mod 2 ^ 64"
    by (simp add: unat_word_ariths)
  also have "\<dots> = unat i + 1"
    using lt up by (simp add: word_less_nat_alt)
  finally have "unat (i + 1) = unat i + 1" .
  then show "((body, sc, i + 1, boundaries @ [x3]), (body, sc, i, boundaries))
      \<in> measure (\<lambda>(body, sc, i, boundaries). unat sc - unat i)"
    using lt by (simp add: word_less_nat_alt)
qed

definition splitBoundariesUintColumn_checked ::
  "('f, 'n) sqltypes \<Rightarrow> QuerySplitter \<Rightarrow> Result option \<Rightarrow>
     fault + ((error + Value list) \<times> QuerySplitter)" where
  "splitBoundariesUintColumn_checked st qs pkMinMax =
     (case minMaxCells pkMinMax of
        Inl e \<Rightarrow> Inr (Inl e, qs)
      | Inr None \<Rightarrow> Inr (Inr [], qs)
      | Inr (Some (minNumeric, maxNumeric)) \<Rightarrow>
          (case ParseUint64 st minNumeric of
             Inl err \<Rightarrow> Inr (Inl err, qs)
           | Inr mn \<Rightarrow>
               (case ParseUint64 st maxNumeric of
                  Inl err \<Rightarrow> Inr (Inl err, qs)
                | Inr mx \<Rightarrow>
                    (let err = (None :: error option) in
                     case checked_sub mx mn of
                       Inl f \<Rightarrow> Inl f
                     | Inr difference \<Rightarrow>
                         (case checked_div difference (splitCount qs) of
                            Inl f \<Rightarrow> Inl f
                          | Inr interval \<Rightarrow>
                              if interval = 0 then Inr (ret [] err, qs)
                              else
                                (let qs1 = qs\<lparr>rowCount := interval\<rparr>
                                 in case forUnsigned_checked
                                      (\<lambda>i. case checked_mul interval i of
                                              Inl f \<Rightarrow> Inl f
                                            | Inr product \<Rightarrow>
                                                (case checked_add mn product of
                                                   Inl f \<Rightarrow> Inl f
                                                 | Inr boundary \<Rightarrow>
                                                     Inr (BuildValue_uint64 st boundary)))
                                      (splitCount qs1) 1 [] of
                                      Inl f \<Rightarrow> Inl f
                                    | Inr boundaries \<Rightarrow> Inr (boundaries, qs1)))))))"

section \<open>The bind variables of a split as the specification words them\<close>


section \<open>Properties of the loops and of the frame\<close>

declare forSigned.simps [simp del] forUnsigned.simps [simp del]

declare forUnsigned_checked.simps [simp del]

lemma sint_plus_one:
  fixes i sc :: int64
  assumes "i <s sc"
  shows "sint (i + 1) = sint i + 1"
proof -
  have up: "sint sc < 2 ^ 63"
    using sint_lt [of sc] by simp
  have lo: "- (2 ^ 63) \<le> sint i"
    using sint_ge [of i] by simp
  have "sint (i + 1) = signed_take_bit 63 (sint i + 1)"
    by (simp add: sint_word_ariths)
  also have "\<dots> = sint i + 1"
    using assms up lo by (intro signed_take_bit_int_eq_self) (auto simp: word_sless_alt)
  finally show ?thesis .
qed

lemma unat_plus_one:
  fixes i sc :: uint64
  assumes "i < sc"
  shows "unat (i + 1) = unat i + 1"
proof -
  have up: "unat sc < 2 ^ 64"
    using unsigned_less [of sc, where ?'a = nat] by simp
  have "unat (i + 1) = (unat i + 1) mod 2 ^ 64"
    by (simp add: unat_word_ariths)
  also have "\<dots> = unat i + 1"
    using assms up by (simp add: word_less_nat_alt)
  finally show ?thesis .
qed

lemma map_upt_shift:
  "map g [0..<Suc n] = g 0 # map (\<lambda>k. g (Suc k)) [0..<n]"
  by (simp only: map_upt_Suc)

lemma forSigned_total:
  assumes "\<And>j. body j = Inr (f j)"
  shows "forSigned body sc i bs =
           Inr (bs @ map (\<lambda>k. f (i + of_nat k)) [0..<nat (sint sc - sint i)])"
  using assms
proof (induction body sc i bs rule: forSigned.induct)
  case (1 body sc i boundaries)
  note body = "1.prems"
  show ?case
  proof (cases "i <s sc")
    case True
    have s1: "sint (i + 1) = sint i + 1"
      by (rule sint_plus_one [OF True])
    have n: "nat (sint sc - sint i) = Suc (nat (sint sc - sint (i + 1)))"
      using True s1 by (simp add: word_sless_alt)
    have "forSigned body sc i boundaries = forSigned body sc (i + 1) (boundaries @ [f i])"
      using True by (subst forSigned.simps) (simp add: body [of i])
    also have "\<dots> = Inr ((boundaries @ [f i]) @
        map (\<lambda>k. f (i + 1 + of_nat k)) [0..<nat (sint sc - sint (i + 1))])"
      using "1.IH" [OF True body [of i] body] .
    also have "\<dots> = Inr (boundaries @ map (\<lambda>k. f (i + of_nat k)) [0..<nat (sint sc - sint i)])"
      unfolding n map_upt_shift by (simp add: add.assoc)
    finally show ?thesis .
  next
    case False
    then show ?thesis
      by (subst forSigned.simps) (simp add: word_sless_alt)
  qed
qed

lemma forUnsigned_total:
  assumes "\<And>j. body j = Inr (f j)"
  shows "forUnsigned body sc i bs =
           Inr (bs @ map (\<lambda>k. f (i + of_nat k)) [0..<unat sc - unat i])"
  using assms
proof (induction body sc i bs rule: forUnsigned.induct)
  case (1 body sc i boundaries)
  note body = "1.prems"
  show ?case
  proof (cases "i < sc")
    case True
    have s1: "unat (i + 1) = unat i + 1"
      by (rule unat_plus_one [OF True])
    have n: "unat sc - unat i = Suc (unat sc - unat (i + 1))"
      using True s1 by (simp add: word_less_nat_alt)
    have "forUnsigned body sc i boundaries = forUnsigned body sc (i + 1) (boundaries @ [f i])"
      using True by (subst forUnsigned.simps) (simp add: body [of i])
    also have "\<dots> = Inr ((boundaries @ [f i]) @
        map (\<lambda>k. f (i + 1 + of_nat k)) [0..<unat sc - unat (i + 1)])"
      using "1.IH" [OF True body [of i] body] .
    also have "\<dots> = Inr (boundaries @ map (\<lambda>k. f (i + of_nat k)) [0..<unat sc - unat i])"
      unfolding n map_upt_shift by (simp add: add.assoc)
    finally show ?thesis .
  next
    case False
    then show ?thesis
      by (subst forUnsigned.simps) (simp add: word_less_nat_alt)
  qed
qed


lemma minMaxCells_row:
  "\<not> IsNull c0 \<Longrightarrow> \<not> IsNull c1 \<Longrightarrow> minMaxCells (Some \<lparr>Rows = [[c0, c1]]\<rparr>) = Inr (Some (c0, c1))"
  by (simp add: minMaxCells_def index_def)

lemma minMaxCells_none:
  "pkMinMax = None \<or> (\<exists>r. pkMinMax = Some r \<and> (length (Rows r) \<noteq> 1 \<or>
      (\<exists>c0 c1. Rows r = [[c0, c1]] \<and> (IsNull c0 \<or> IsNull c1)))) \<Longrightarrow>
   minMaxCells pkMinMax = Inr None"
  by (auto simp: minMaxCells_def index_def)

lemma getWhereClause_Some_Inr:
  "\<exists>w h'. getWhereClause st qs whereClause (Some r) start end h = Inr (w, h') \<and>
      nextRef h' = nextRef h \<and> (\<forall>r'. r' \<noteq> r \<longrightarrow> maps h' r' = maps h r')"
  by (simp add: getWhereClause_def mapassign_def Let_def)

lemma splitLoop_length:
  "\<exists>out s1 h1. splitLoop st sp qs whereClause bs start s splits h = Inr (out, s1, h1) \<and>
     length out = length splits + length bs \<and> (\<forall>w. s1\<lparr>Where := w\<rparr> = s\<lparr>Where := w\<rparr>)"
proof (induction bs arbitrary: start s splits h)
  case Nil
  show ?case by simp
next
  case (Cons b bs)
  obtain r h1 where c: "copy_map h (bindVariables qs) = (r, h1)"
    by (cases "copy_map h (bindVariables qs)")
  obtain w h2 where g: "getWhereClause st qs whereClause (Some r) start b h1 = Inr (w, h2)"
    using getWhereClause_Some_Inr [of st qs whereClause r start b h1] by blast
  show ?case
    using Cons.IH [of b "s\<lparr>Where := w\<rparr>"
        "splits @ [\<lparr>Sql = sqlparser_String sp (s\<lparr>Where := w\<rparr>), BindVariables = Some r,
                    RowCount = rowCount qs\<rparr>]" h2]
    by (auto simp: c g Let_def)
qed

lemma splitBoundariesIntColumn_frame:
  "(snd (splitBoundariesIntColumn st qs pkMinMax))\<lparr>rowCount := y\<rparr> = qs\<lparr>rowCount := y\<rparr>"
  unfolding splitBoundariesIntColumn_def Let_def
  by (simp split: sum.split option.split prod.split)

lemma splitBoundariesUintColumn_frame:
  "(snd (splitBoundariesUintColumn st qs pkMinMax))\<lparr>rowCount := y\<rparr> = qs\<lparr>rowCount := y\<rparr>"
  unfolding splitBoundariesUintColumn_def Let_def
  by (simp split: sum.split option.split prod.split)

lemma splitBoundariesFloatColumn_frame:
  "(snd (splitBoundariesFloatColumn fl st qs pkMinMax))\<lparr>rowCount := y\<rparr> = qs\<lparr>rowCount := y\<rparr>"
  unfolding splitBoundariesFloatColumn_def Let_def
  by (simp split: sum.split option.split prod.split)

lemma splitBoundariesStringColumn_frame:
  "(snd (splitBoundariesStringColumn st qs))\<lparr>rowCount := y\<rparr> = qs\<lparr>rowCount := y\<rparr>"
  unfolding splitBoundariesStringColumn_def Let_def
  by (simp split: sum.split option.split prod.split)

lemma splitBoundaries_frame:
  "(snd (splitBoundaries fl st qs columnType pkMinMax))\<lparr>rowCount := y\<rparr> = qs\<lparr>rowCount := y\<rparr>"
  unfolding splitBoundaries_def
  by (simp add: splitBoundariesIntColumn_frame splitBoundariesUintColumn_frame
      splitBoundariesFloatColumn_frame splitBoundariesStringColumn_frame)

lemma splitBoundaries_fields:
  "sel (snd (splitBoundaries fl st qs columnType pkMinMax)) = sel qs"
  "sql (snd (splitBoundaries fl st qs columnType pkMinMax)) = sql qs"
  "bindVariables (snd (splitBoundaries fl st qs columnType pkMinMax)) = bindVariables qs"
  "splitCount (snd (splitBoundaries fl st qs columnType pkMinMax)) = splitCount qs"
  "splitColumn (snd (splitBoundaries fl st qs columnType pkMinMax)) = splitColumn qs"
proof -
  let ?q = "snd (splitBoundaries fl st qs columnType pkMinMax)"
  have e: "?q\<lparr>rowCount := 0\<rparr> = qs\<lparr>rowCount := 0\<rparr>"
    by (rule splitBoundaries_frame)
  show "sel ?q = sel qs"
    using arg_cong [OF e, where f = sel] by simp
  show "sql ?q = sql qs"
    using arg_cong [OF e, where f = sql] by simp
  show "bindVariables ?q = bindVariables qs"
    using arg_cong [OF e, where f = bindVariables] by simp
  show "splitCount ?q = splitCount qs"
    using arg_cong [OF e, where f = splitCount] by simp
  show "splitColumn ?q = splitColumn qs"
    using arg_cong [OF e, where f = splitColumn] by simp
qed

section \<open>The statement validator\<close>

lemma validateQuery_resolved:
  assumes "spec_resolves sp qs s expr table"
  shows "validateQuery sp qs =
     (if \<not> ColIdent_IsEmpty (splitColumn qs)
      then (if spec_indexed sp (splitColumn qs) table
            then (None, qs\<lparr>sel := Some s, tableName := GetTableName sp expr\<rparr>)
            else (Some (SplitColumnNotIndexed (splitColumn qs) table),
                  qs\<lparr>sel := Some s, tableName := GetTableName sp expr\<rparr>))
      else (None, qs\<lparr>sel := Some s, tableName := GetTableName sp expr,
                      splitColumn := GetPKColumn table 0\<rparr>))"
  using assms unfolding validateQuery_def spec_resolves_def spec_indexed_def Let_def
  by (auto simp: list_ex_iff) blast

lemma validateQuery_None_resolves:
  assumes "fst (validateQuery sp qs) = None"
  shows "\<exists>s expr table. spec_resolves sp qs s expr table \<and>
           (ColIdent_IsEmpty (splitColumn qs) \<or> spec_indexed sp (splitColumn qs) table)"
  using assms unfolding validateQuery_def spec_resolves_def spec_indexed_def Let_def
  by (auto simp: list_ex_iff length_Suc_conv
      split: sum.splits Statement.splits TableExpr.splits option.splits if_splits)

text \<open>
  C5: \<open>validateQuery\<close> succeeds exactly when the statement meets the rules of the
  validator and a requested split column appears in some index of the table. When the
  rules are met but the requested column is in no index, the error names the column and
  the table. When no split column was requested, the split column becomes the first
  primary-key column of the table; a requested one is kept.
\<close>

theorem validateQuery_succeeds_iff:
  "(fst (validateQuery sp qs) = None \<longleftrightarrow>
      (\<exists>s expr table. spec_resolves sp qs s expr table \<and>
         (ColIdent_IsEmpty (splitColumn qs) \<or> spec_indexed sp (splitColumn qs) table))) \<and>
   (\<forall>s expr table. spec_resolves sp qs s expr table \<and>
       \<not> ColIdent_IsEmpty (splitColumn qs) \<and> \<not> spec_indexed sp (splitColumn qs) table \<longrightarrow>
       fst (validateQuery sp qs) = Some (SplitColumnNotIndexed (splitColumn qs) table)) \<and>
   (\<forall>s expr table. spec_resolves sp qs s expr table \<and> ColIdent_IsEmpty (splitColumn qs) \<longrightarrow>
       fst (validateQuery sp qs) = None \<and>
       splitColumn (snd (validateQuery sp qs)) = PKColumns table ! 0) \<and>
   (\<forall>s expr table. spec_resolves sp qs s expr table \<and>
       \<not> ColIdent_IsEmpty (splitColumn qs) \<and> spec_indexed sp (splitColumn qs) table \<longrightarrow>
       fst (validateQuery sp qs) = None \<and>
       splitColumn (snd (validateQuery sp qs)) = splitColumn qs)"
proof (intro conjI allI impI iffI)
  assume "fst (validateQuery sp qs) = None"
  then show "\<exists>s expr table. spec_resolves sp qs s expr table \<and>
      (ColIdent_IsEmpty (splitColumn qs) \<or> spec_indexed sp (splitColumn qs) table)"
    by (rule validateQuery_None_resolves)
next
  assume "\<exists>s expr table. spec_resolves sp qs s expr table \<and>
      (ColIdent_IsEmpty (splitColumn qs) \<or> spec_indexed sp (splitColumn qs) table)"
  then obtain s expr table where r: "spec_resolves sp qs s expr table"
    and c: "ColIdent_IsEmpty (splitColumn qs) \<or> spec_indexed sp (splitColumn qs) table"
    by blast
  show "fst (validateQuery sp qs) = None"
    using c by (auto simp: validateQuery_resolved [OF r])
next
  fix s expr table
  assume "spec_resolves sp qs s expr table \<and>
       \<not> ColIdent_IsEmpty (splitColumn qs) \<and> \<not> spec_indexed sp (splitColumn qs) table"
  then show "fst (validateQuery sp qs) = Some (SplitColumnNotIndexed (splitColumn qs) table)"
    by (simp add: validateQuery_resolved [of sp qs s expr table])
next
  fix s expr table
  assume a: "spec_resolves sp qs s expr table \<and> ColIdent_IsEmpty (splitColumn qs)"
  then show "fst (validateQuery sp qs) = None"
    by (simp add: validateQuery_resolved [of sp qs s expr table])
  from a show "splitColumn (snd (validateQuery sp qs)) = PKColumns table ! 0"
    by (simp add: validateQuery_resolved [of sp qs s expr table] GetPKColumn_def)
next
  fix s expr table
  assume a: "spec_resolves sp qs s expr table \<and>
       \<not> ColIdent_IsEmpty (splitColumn qs) \<and> spec_indexed sp (splitColumn qs) table"
  then show "fst (validateQuery sp qs) = None"
    by (simp add: validateQuery_resolved [of sp qs s expr table])
  from a show "splitColumn (snd (validateQuery sp qs)) = splitColumn qs"
    by (simp add: validateQuery_resolved [of sp qs s expr table])
qed

lemma scenario_resolves:
  "spec_resolves scenario_sqlparser
     (NewQuerySplitter ''select * from t'' None col n scenario_schema)
     select_from_t (TableName (TableIdent ''t'') (TableIdent [])) table_t"
  by (simp add: spec_resolves_def scenario_sqlparser_def NewQuerySplitter_def Let_def
      select_from_t_def scenario_schema_def table_t_def)

theorem validateQuery_succeeds_iff_witness:
  "fst (validateQuery scenario_sqlparser
          (NewQuerySplitter ''select * from t'' None [] 4 scenario_schema)) = None \<and>
   splitColumn (snd (validateQuery scenario_sqlparser
          (NewQuerySplitter ''select * from t'' None [] 4 scenario_schema))) = ColIdent ''id'' \<and>
   fst (validateQuery scenario_sqlparser
          (NewQuerySplitter ''select * from t'' None ''age'' 4 scenario_schema)) = None \<and>
   splitColumn (snd (validateQuery scenario_sqlparser
          (NewQuerySplitter ''select * from t'' None ''age'' 4 scenario_schema))) = ColIdent ''age'' \<and>
   fst (validateQuery scenario_sqlparser
          (NewQuerySplitter ''select * from t'' None ''zip'' 4 scenario_schema)) =
     Some (SplitColumnNotIndexed (ColIdent ''zip'') table_t) \<and>
   fst (validateQuery scenario_sqlparser
          (NewQuerySplitter ''select * from t join u'' None [] 4 scenario_schema)) \<noteq> None"
proof -
  let ?q = "\<lambda>col. NewQuerySplitter ''select * from t'' None col 4 scenario_schema"
  let ?j = "NewQuerySplitter ''select * from t join u'' None [] 4 scenario_schema"
  have col: "splitColumn (?q col) = ColIdent col" for col
    by (simp add: NewQuerySplitter_def Let_def NewColIdent_def)
  have age: "spec_indexed scenario_sqlparser (ColIdent ''age'') table_t"
    by (simp add: spec_indexed_def scenario_sqlparser_def table_t_def)
  have zip: "\<not> spec_indexed scenario_sqlparser (ColIdent ''zip'') table_t"
    by (simp add: spec_indexed_def scenario_sqlparser_def table_t_def)
  have join: "\<not> (\<exists>s expr table. spec_resolves scenario_sqlparser ?j s expr table \<and>
      (ColIdent_IsEmpty (splitColumn ?j) \<or> spec_indexed scenario_sqlparser (splitColumn ?j) table))"
    by (auto simp: spec_resolves_def scenario_sqlparser_def NewQuerySplitter_def Let_def
        select_from_t_def)
  note a = validateQuery_succeeds_iff [of scenario_sqlparser "?q []"]
  note b = validateQuery_succeeds_iff [of scenario_sqlparser "?q ''age''"]
  note c = validateQuery_succeeds_iff [of scenario_sqlparser "?q ''zip''"]
  note d = validateQuery_succeeds_iff [of scenario_sqlparser ?j]
  have 1: "fst (validateQuery scenario_sqlparser (?q [])) = None \<and>
      splitColumn (snd (validateQuery scenario_sqlparser (?q []))) = PKColumns table_t ! 0"
    using a scenario_resolves [of "[]" 4] unfolding col by (simp (no_asm_use)) blast
  have 2: "fst (validateQuery scenario_sqlparser (?q ''age'')) = None \<and>
      splitColumn (snd (validateQuery scenario_sqlparser (?q ''age''))) = ColIdent ''age''"
    using b scenario_resolves [of "''age''" 4] age unfolding col by (simp (no_asm_use)) blast
  have 3: "fst (validateQuery scenario_sqlparser (?q ''zip'')) =
      Some (SplitColumnNotIndexed (ColIdent ''zip'') table_t)"
    using c scenario_resolves [of "''zip''" 4] zip unfolding col by (simp (no_asm_use)) blast
  have 4: "fst (validateQuery scenario_sqlparser ?j) \<noteq> None"
    using d join by blast
  show ?thesis
    using 1 2 3 4 by (simp add: table_t_def)
qed

section \<open>The predicate rewriter\<close>

lemma mapassign_Some:
  "mapassign h (Some r) k v = Inr (h\<lparr>maps := (maps h)(r := (maps h r)(k \<mapsto> v))\<rparr>)"
  by (simp add: mapassign_def)

lemma scenario_splitter_fields:
  "sql (scenario_splitter n) = ''select * from t''"
  "bindVariables (scenario_splitter n) = None"
  "splitColumn (scenario_splitter n) = ColIdent ''id''"
  "sel (scenario_splitter n) = Some select_from_t"
  "splitCount (scenario_splitter n) = (if n <s 1 then 1 else n)"
  unfolding scenario_splitter_def validateQuery_resolved [OF scenario_resolves]
  by (simp_all add: NewQuerySplitter_def NewColIdent_def Let_def GetPKColumn_def table_t_def)

text \<open>
  C4: with both bounds null \<open>getWhereClause\<close> returns the original WHERE clause and
  leaves the map alone. With only \<open>start\<close> bound the range predicate is
  \<open>splitColumn >= :_splitquery_start\<close>, with only \<open>end\<close> bound it is
  \<open>splitColumn < :_splitquery_end\<close>, with both bound the conjunction of the two.
  An original WHERE clause is conjoined with the range predicate, each side in
  parentheses, and the native form of every bound value is stored in the supplied map
  under the fixed name.
\<close>

theorem getWhereClause_cases:
  fixes st :: "('f, 'n) sqltypes" and h :: "'n heap"
  shows
  "(IsNull start \<and> IsNull end \<longrightarrow>
      getWhereClause st qs whereClause (Some r) start end h = Inr (whereClause, h)) \<and>
   (\<not> IsNull start \<and> IsNull end \<longrightarrow>
      getWhereClause st qs whereClause (Some r) start end h =
        Inr (Some \<lparr>Where_Type = WhereStr, Where_Expr =
               (let range = ComparisonExpr ''>='' (ColName (splitColumn qs)) (ValArg '':_splitquery_start'')
                in case whereClause of
                     None \<Rightarrow> range
                   | Some w \<Rightarrow> AndExpr (ParenExpr (Where_Expr w)) (ParenExpr range))\<rparr>,
             h\<lparr>maps := (maps h)(r := (maps h r)(''_splitquery_start'' \<mapsto> ToNative st start))\<rparr>)) \<and>
   (IsNull start \<and> \<not> IsNull end \<longrightarrow>
      getWhereClause st qs whereClause (Some r) start end h =
        Inr (Some \<lparr>Where_Type = WhereStr, Where_Expr =
               (let range = ComparisonExpr ''<'' (ColName (splitColumn qs)) (ValArg '':_splitquery_end'')
                in case whereClause of
                     None \<Rightarrow> range
                   | Some w \<Rightarrow> AndExpr (ParenExpr (Where_Expr w)) (ParenExpr range))\<rparr>,
             h\<lparr>maps := (maps h)(r := (maps h r)(''_splitquery_end'' \<mapsto> ToNative st end))\<rparr>)) \<and>
   (\<not> IsNull start \<and> \<not> IsNull end \<longrightarrow>
      getWhereClause st qs whereClause (Some r) start end h =
        Inr (Some \<lparr>Where_Type = WhereStr, Where_Expr =
               (let range = AndExpr
                      (ComparisonExpr ''>='' (ColName (splitColumn qs)) (ValArg '':_splitquery_start''))
                      (ComparisonExpr ''<'' (ColName (splitColumn qs)) (ValArg '':_splitquery_end''))
                in case whereClause of
                     None \<Rightarrow> range
                   | Some w \<Rightarrow> AndExpr (ParenExpr (Where_Expr w)) (ParenExpr range))\<rparr>,
             h\<lparr>maps := (maps h)(r := (maps h r)(''_splitquery_start'' \<mapsto> ToNative st start,
                                                  ''_splitquery_end'' \<mapsto> ToNative st end))\<rparr>))"
  by (simp add: getWhereClause_def mapassign_Some GreaterEqualStr_def LessThanStr_def NewValArg_def
      startBindVarName_def endBindVarName_def Let_def split: option.split)

theorem getWhereClause_cases_witness:
  "getWhereClause decimal_sqltypes (scenario_splitter 4)
      (Some \<lparr>Where_Type = WhereStr, Where_Expr = OtherExpr ''a = 1 or b = 2''\<rparr>) (Some 0)
      NULL NULL empty_heap =
     Inr (Some \<lparr>Where_Type = WhereStr, Where_Expr = OtherExpr ''a = 1 or b = 2''\<rparr>, empty_heap) \<and>
   getWhereClause decimal_sqltypes (scenario_splitter 4)
      (Some \<lparr>Where_Type = WhereStr, Where_Expr = OtherExpr ''a = 1 or b = 2''\<rparr>) (Some 0)
      (Value SignedType ''25'') (Value SignedType ''50'') empty_heap =
     Inr (Some \<lparr>Where_Type = ''where'', Where_Expr =
            AndExpr (ParenExpr (OtherExpr ''a = 1 or b = 2''))
              (ParenExpr (AndExpr
                 (ComparisonExpr ''>='' (ColName (ColIdent ''id'')) (ValArg '':_splitquery_start''))
                 (ComparisonExpr ''<'' (ColName (ColIdent ''id'')) (ValArg '':_splitquery_end''))))\<rparr>,
          empty_heap\<lparr>maps := (maps empty_heap)(0 :=
             [''_splitquery_start'' \<mapsto> Value SignedType ''25'',
              ''_splitquery_end'' \<mapsto> Value SignedType ''50''])\<rparr>) \<and>
   getWhereClause decimal_sqltypes (scenario_splitter 4) None (Some 0)
      NULL (Value SignedType ''50'') empty_heap =
     Inr (Some \<lparr>Where_Type = ''where'', Where_Expr =
            ComparisonExpr ''<'' (ColName (ColIdent ''id'')) (ValArg '':_splitquery_end'')\<rparr>,
          empty_heap\<lparr>maps := (maps empty_heap)(0 :=
             [''_splitquery_end'' \<mapsto> Value SignedType ''50''])\<rparr>)"
proof -
  let ?w = "Some \<lparr>Where_Type = WhereStr, Where_Expr = OtherExpr ''a = 1 or b = 2''\<rparr>"
  have n: "IsNull NULL" "\<not> IsNull (Value SignedType ''25'')" "\<not> IsNull (Value SignedType ''50'')"
    by (simp_all add: IsNull_def)
  have e: "maps empty_heap 0 = Map.empty" "ToNative decimal_sqltypes = (\<lambda>v. v)"
    by (simp_all add: empty_heap_def decimal_sqltypes_def)
  show ?thesis
    using getWhereClause_cases [of NULL NULL decimal_sqltypes "scenario_splitter 4" ?w 0 empty_heap]
      getWhereClause_cases [of "Value SignedType ''25''" "Value SignedType ''50''" decimal_sqltypes
        "scenario_splitter 4" ?w 0 empty_heap]
      getWhereClause_cases [of NULL "Value SignedType ''50''" decimal_sqltypes
        "scenario_splitter 4" None 0 empty_heap]
    by (simp add: n e scenario_splitter_fields WhereStr_def)
qed

section \<open>Running the scenarios\<close>

lemma decimal_sqltypes_simps:
  "ParseInt64 decimal_sqltypes = decimal_ParseInt64"
  "ParseUint64 decimal_sqltypes = decimal_ParseUint64"
  "BuildValue_int64 decimal_sqltypes x = Inr (Value SignedType (show_decimal (sint x)))"
  "BuildValue_uint64 decimal_sqltypes x = Inr (Value UnsignedType (show_decimal (uint x)))"
  "BuildValue_bytes decimal_sqltypes bs = Inr (Value BinaryType (map (\<lambda>b. char_of (unat b)) bs))"
  "ToNative decimal_sqltypes v = v"
  by (simp_all add: decimal_sqltypes_def)

lemma scenario_sqlparser_String:
  "sqlparser_String scenario_sqlparser = render_Select"
  by (simp add: scenario_sqlparser_def)

lemma parse_0_100:
  "decimal_ParseInt64 (Value SignedType ''0'') = Inr 0"
  "decimal_ParseInt64 (Value SignedType ''100'') = Inr 100"
  "decimal_ParseInt64 (Value SignedType ''5'') = Inr 5"
  "decimal_ParseInt64 (Value SignedType ''6'') = Inr 6"
  by code_simp+

lemma show_25_50_75:
  "show_decimal 25 = ''25''" "show_decimal 50 = ''50''" "show_decimal 75 = ''75''"
  by code_simp+

lemma scenario_A_boundaries:
  "splitBoundaries exact_float64 decimal_sqltypes (scenario_splitter 4) SignedType
     (minMaxResult SignedType ''0'' ''100'') =
   (Inr [Value SignedType ''25'', Value SignedType ''50'', Value SignedType ''75''],
    (scenario_splitter 4)\<lparr>rowCount := 25\<rparr>)"
proof -
  have d: "div_int64 100 4 = Inr 25"
    by (simp add: div_int64_def signed_divide_int_def)
  have l: "forSigned (\<lambda>i. BuildValue_int64 decimal_sqltypes (25 * i)) 4 1 [] =
      Inr [Value SignedType ''25'', Value SignedType ''50'', Value SignedType ''75'']"
  proof -
    have "forSigned (\<lambda>i. BuildValue_int64 decimal_sqltypes (25 * i)) 4 1 [] =
        Inr ([] @ map (\<lambda>k. Value SignedType (show_decimal (sint (25 * (1 + of_nat k :: int64)))))
          [0..<nat (sint (4 :: int64) - sint (1 :: int64))])"
      by (rule forSigned_total [where f = "\<lambda>i. Value SignedType (show_decimal (sint (25 * i)))"])
        (simp add: decimal_sqltypes_simps)
    also have "\<dots> = Inr [Value SignedType ''25'', Value SignedType ''50'', Value SignedType ''75'']"
      by (simp add: upt_rec show_25_50_75)
    finally show ?thesis .
  qed
  show ?thesis
    by (simp add: splitBoundaries_def IsSigned_def splitBoundariesIntColumn_def minMaxResult_def
        minMaxCells_row IsNull_def decimal_sqltypes_simps(1) parse_0_100 scenario_splitter_fields
        word_sless_alt d l)
qed

lemma rendered_A:
  "render_Select (select_from_t\<lparr>Where := Some \<lparr>Where_Type = WhereStr, Where_Expr = e\<rparr>\<rparr>) =
     ''select * from t where '' @ render_Expr e"
  "render_Select select_from_t = ''select * from t''"
  by (simp_all add: render_Select_def select_from_t_def WhereStr_def)

lemma select_from_t_Where:
  "Where select_from_t = None"
  by (simp add: select_from_t_def)

lemma scenario_A_splits:
  "fst (split exact_float64 decimal_sqltypes scenario_sqlparser (scenario_splitter 4) SignedType
          (minMaxResult SignedType ''0'' ''100'') empty_heap) =
     Inr [\<lparr>Sql = ''select * from t where id < :_splitquery_end'',
            BindVariables = Some 0, RowCount = 25\<rparr>,
          \<lparr>Sql = ''select * from t where id >= :_splitquery_start and id < :_splitquery_end'',
            BindVariables = Some 1, RowCount = 25\<rparr>,
          \<lparr>Sql = ''select * from t where id >= :_splitquery_start and id < :_splitquery_end'',
            BindVariables = Some 2, RowCount = 25\<rparr>,
          \<lparr>Sql = ''select * from t where id >= :_splitquery_start'',
            BindVariables = Some 3, RowCount = 25\<rparr>]"
  by (simp add: split_def scenario_A_boundaries scenario_splitter_fields copy_map_def make_map_def
      deref_def empty_heap_def getWhereClause_def mapassign_def IsNull_def Let_def
      scenario_sqlparser_String rendered_A select_from_t_Where
      GreaterEqualStr_def LessThanStr_def NewValArg_def startBindVarName_def endBindVarName_def)

section \<open>The split assembler\<close>

lemma forSigned_done:
  "\<not> i <s sc \<Longrightarrow> forSigned body sc i bs = Inr bs"
  by (subst forSigned.simps) simp

lemma forUnsigned_done:
  "\<not> i < sc \<Longrightarrow> forUnsigned body sc i bs = Inr bs"
  by (subst forUnsigned.simps) simp

lemma split_no_boundaries:
  assumes "fst (splitBoundaries fl st qs columnType pkMinMax) = Inr []"
  shows "split fl st sp qs columnType pkMinMax h =
           (Inr [\<lparr>Sql = sql qs, BindVariables = bindVariables qs, RowCount = 0\<rparr>],
            snd (splitBoundaries fl st qs columnType pkMinMax), h)"
proof -
  obtain qs1 where b: "splitBoundaries fl st qs columnType pkMinMax = (Inr [], qs1)"
    using assms by (cases "splitBoundaries fl st qs columnType pkMinMax") simp
  have "sql qs1 = sql qs" "bindVariables qs1 = bindVariables qs"
    using splitBoundaries_fields(2,3) [of fl st qs columnType pkMinMax] by (simp_all add: b)
  then show ?thesis
    by (simp add: split_def b)
qed

lemma split_with_boundaries:
  assumes b: "splitBoundaries fl st qs columnType pkMinMax = (Inr bs, qs1)"
    and ne: "bs \<noteq> []" and s: "sel qs = Some s"
  shows "\<exists>splits s1 h1.
     splitLoop st sp qs1 (Where s) (bs @ [NULL]) NULL s [] h = Inr (splits, s1, h1) \<and>
     length splits = Suc (length bs) \<and>
     split fl st sp qs columnType pkMinMax h = (Inr splits, qs1, h1)"
proof -
  have s1: "sel qs1 = Some s"
    using splitBoundaries_fields(1) [of fl st qs columnType pkMinMax] by (simp add: b s)
  obtain splits s' h1 where
    l: "splitLoop st sp qs1 (Where s) (bs @ [NULL]) NULL s [] h = Inr (splits, s', h1)"
    and n: "length splits = length ([] :: QuerySplit list) + length (bs @ [NULL])"
    and w: "\<forall>w. s'\<lparr>Where := w\<rparr> = s\<lparr>Where := w\<rparr>"
    using splitLoop_length [of st sp qs1 "Where s" "bs @ [NULL]" NULL s "[]" h] by blast
  have "s'\<lparr>Where := Where s\<rparr> = s"
    using w by simp
  then have "qs1\<lparr>sel := Some (s'\<lparr>Where := Where s\<rparr>)\<rparr> = qs1"
    using s1 by simp
  then show ?thesis
    using l n ne by (simp add: split_def b s1 Let_def)
qed

text \<open>
  C3: when \<open>split\<close> returns a list of splits, with no boundaries or with some, the
  statement the splitter holds is the one it held before the call, so its WHERE clause
  and its rendered text are unchanged. The loop over any list of boundaries, followed by
  the reset of line 139, gives the statement back as well.
\<close>

theorem split_restores_where:
  "(split fl st sp qs columnType pkMinMax h = (Inr splits, qs', h') \<longrightarrow>
      sel qs' = sel qs \<and>
      map_option Where (sel qs') = map_option Where (sel qs) \<and>
      map_option (sqlparser_String sp) (sel qs') = map_option (sqlparser_String sp) (sel qs)) \<and>
   (\<exists>out s1 h1. splitLoop st sp qs (Where s) boundaries start s acc h = Inr (out, s1, h1) \<and>
      s1\<lparr>Where := Where s\<rparr> = s)"
proof (intro conjI impI)
  assume r: "split fl st sp qs columnType pkMinMax h = (Inr splits, qs', h')"
  obtain res qs1 where b: "splitBoundaries fl st qs columnType pkMinMax = (res, qs1)"
    by (cases "splitBoundaries fl st qs columnType pkMinMax")
  have s1: "sel qs1 = sel qs"
    using splitBoundaries_fields(1) [of fl st qs columnType pkMinMax] by (simp add: b)
  have "sel qs' = sel qs"
  proof (cases res)
    case (Inl e)
    then show ?thesis
      using r by (simp add: split_def b)
  next
    case (Inr bs)
    show ?thesis
    proof (cases "bs = []")
      case True
      then show ?thesis
        using r s1 by (simp add: split_def b Inr)
    next
      case False
      show ?thesis
      proof (cases "sel qs")
        case None
        then show ?thesis
          using r s1 False by (simp add: split_def b Inr)
      next
        case (Some s0)
        obtain splits0 h1 where
          "split fl st sp qs columnType pkMinMax h = (Inr splits0, qs1, h1)"
          using split_with_boundaries [OF b [unfolded Inr] False Some] by blast
        then show ?thesis
          using r s1 by simp
      qed
    qed
  qed
  then show "sel qs' = sel qs"
    and "map_option Where (sel qs') = map_option Where (sel qs)"
    and "map_option (sqlparser_String sp) (sel qs') = map_option (sqlparser_String sp) (sel qs)"
    by simp_all
next
  obtain out s1 h1 where
    l: "splitLoop st sp qs (Where s) boundaries start s acc h = Inr (out, s1, h1)"
    and w: "\<forall>w. s1\<lparr>Where := w\<rparr> = s\<lparr>Where := w\<rparr>"
    using splitLoop_length [of st sp qs "Where s" boundaries start s acc h] by blast
  have "s1\<lparr>Where := Where s\<rparr> = s"
    using w by simp
  then show "\<exists>out s1 h1. splitLoop st sp qs (Where s) boundaries start s acc h = Inr (out, s1, h1) \<and>
      s1\<lparr>Where := Where s\<rparr> = s"
    using l by blast
qed

theorem split_restores_where_witness:
  "fst (split exact_float64 decimal_sqltypes scenario_sqlparser (scenario_splitter 4) SignedType
          (minMaxResult SignedType ''0'' ''100'') empty_heap) =
     Inr [\<lparr>Sql = ''select * from t where id < :_splitquery_end'',
            BindVariables = Some 0, RowCount = 25\<rparr>,
          \<lparr>Sql = ''select * from t where id >= :_splitquery_start and id < :_splitquery_end'',
            BindVariables = Some 1, RowCount = 25\<rparr>,
          \<lparr>Sql = ''select * from t where id >= :_splitquery_start and id < :_splitquery_end'',
            BindVariables = Some 2, RowCount = 25\<rparr>,
          \<lparr>Sql = ''select * from t where id >= :_splitquery_start'',
            BindVariables = Some 3, RowCount = 25\<rparr>] \<and>
   sel (fst (snd (split exact_float64 decimal_sqltypes scenario_sqlparser (scenario_splitter 4)
          SignedType (minMaxResult SignedType ''0'' ''100'') empty_heap))) = Some select_from_t \<and>
   map_option (sqlparser_String scenario_sqlparser)
     (sel (fst (snd (split exact_float64 decimal_sqltypes scenario_sqlparser (scenario_splitter 4)
          SignedType (minMaxResult SignedType ''0'' ''100'') empty_heap)))) = Some ''select * from t''"
proof -
  let ?r = "split exact_float64 decimal_sqltypes scenario_sqlparser (scenario_splitter 4) SignedType
          (minMaxResult SignedType ''0'' ''100'') empty_heap"
  let ?l = "[\<lparr>Sql = ''select * from t where id < :_splitquery_end'',
            BindVariables = Some 0, RowCount = 25\<rparr>,
          \<lparr>Sql = ''select * from t where id >= :_splitquery_start and id < :_splitquery_end'',
            BindVariables = Some 1, RowCount = 25\<rparr>,
          \<lparr>Sql = ''select * from t where id >= :_splitquery_start and id < :_splitquery_end'',
            BindVariables = Some 2, RowCount = 25\<rparr>,
          \<lparr>Sql = ''select * from t where id >= :_splitquery_start'',
            BindVariables = Some 3, RowCount = 25\<rparr>]"
  have f: "fst ?r = Inr ?l"
    by (rule scenario_A_splits)
  have t: "?r = (Inr ?l, fst (snd ?r), snd (snd ?r))"
    by (simp add: prod_eq_iff f)
  have "sel (fst (snd ?r)) = sel (scenario_splitter 4) \<and>
      map_option (sqlparser_String scenario_sqlparser) (sel (fst (snd ?r))) =
      map_option (sqlparser_String scenario_sqlparser) (sel (scenario_splitter 4))"
    using split_restores_where [of exact_float64 decimal_sqltypes scenario_sqlparser
        "scenario_splitter 4" SignedType "minMaxResult SignedType ''0'' ''100''" empty_heap
        ?l "fst (snd ?r)" "snd (snd ?r)"] t
    by blast
  then show ?thesis
    using f by (simp add: scenario_splitter_fields scenario_sqlparser_String rendered_A)
qed

text \<open>
  C1, at the input of scenario C: a signed column with minimum 5, maximum 6 and ten
  splits. The interval is \<open>(6 - 5) / 10 = 0\<close>; line 230 returns \<open>nil, err\<close> with
  \<open>err\<close> the nil left by the successful parse of the maximum, so \<open>split\<close> sees no
  error and no boundary and returns the original query as the only split.
\<close>

theorem scenario_C_no_error:
  "fst (splitBoundaries exact_float64 decimal_sqltypes (scenario_splitter 10) SignedType
          (minMaxResult SignedType ''5'' ''6'')) = Inr [] \<and>
   fst (split exact_float64 decimal_sqltypes scenario_sqlparser (scenario_splitter 10) SignedType
          (minMaxResult SignedType ''5'' ''6'') empty_heap) =
     Inr [\<lparr>Sql = ''select * from t'', BindVariables = None, RowCount = 0\<rparr>]"
proof -
  have d: "div_int64 1 10 = Inr 0"
    by (simp add: div_int64_def signed_divide_int_def)
  have b: "fst (splitBoundaries exact_float64 decimal_sqltypes (scenario_splitter 10) SignedType
          (minMaxResult SignedType ''5'' ''6'')) = Inr []"
    by (simp add: splitBoundaries_def IsSigned_def splitBoundariesIntColumn_def minMaxResult_def
        minMaxCells_row IsNull_def decimal_sqltypes_simps(1) parse_0_100 scenario_splitter_fields
        word_sless_alt d ret_def)
  show ?thesis
    using b by (simp add: split_no_boundaries [OF b] scenario_splitter_fields)
qed

text \<open>
  The same on every numeric path and for every input: an interval of zero gives the
  empty list and no error.
\<close>

lemma zero_interval_no_error:
  "minMaxCells pkMinMax = Inr (Some (c0, c1)) \<Longrightarrow> ParseInt64 st c0 = Inr mn \<Longrightarrow>
     ParseInt64 st c1 = Inr mx \<Longrightarrow> div_int64 (mx - mn) (splitCount qs) = Inr 0 \<Longrightarrow>
     splitBoundariesIntColumn st qs pkMinMax = (Inr [], qs)"
  "minMaxCells pkMinMax = Inr (Some (c0, c1)) \<Longrightarrow> ParseUint64 st c0 = Inr mn \<Longrightarrow>
     ParseUint64 st c1 = Inr mx \<Longrightarrow> div_uint64 (mx - mn) (splitCount qs) = Inr 0 \<Longrightarrow>
     splitBoundariesUintColumn st qs pkMinMax = (Inr [], qs)"
  "minMaxCells pkMinMax = Inr (Some (c0, c1)) \<Longrightarrow> ParseFloat_String st c0 = Inr fmn \<Longrightarrow>
     ParseFloat_String st c1 = Inr fmx \<Longrightarrow>
     float_is_zero fl (float_div fl (float_sub fl fmx fmn) (float_of_int64 fl (splitCount qs))) \<Longrightarrow>
     splitBoundariesFloatColumn fl st qs pkMinMax = (Inr [], qs)"
  by (simp_all add: splitBoundariesIntColumn_def splitBoundariesUintColumn_def
      splitBoundariesFloatColumn_def ret_def Let_def)

section \<open>No boundaries: the single-split fallback\<close>

lemma splitBoundaries_no_min_max:
  assumes "minMaxCells pkMinMax = Inr None" and "columnType \<noteq> BinaryType"
  shows "splitBoundaries fl st qs columnType pkMinMax = (Inr [], qs)"
  using assms
  by (simp add: splitBoundaries_def splitBoundariesIntColumn_def splitBoundariesUintColumn_def
      splitBoundariesFloatColumn_def IsBinary_def)

lemma splitBoundaries_other:
  "splitBoundaries fl st qs OtherType pkMinMax = (Inr [], qs)"
  by (simp add: splitBoundaries_def IsSigned_def IsUnsigned_def IsFloat_def IsBinary_def)

text \<open>
  C6, as amended: for a signed, unsigned or float column whose min/max result is nil, has
  a row count other than one, or has a null minimum or maximum, and for every column
  type outside the four families, the boundary computation returns the empty list and no
  error and leaves the splitter as it was; \<open>split\<close> then returns exactly one split,
  with the original query text, the original bind variables and a row count of zero.
  A binary column is excluded: its boundaries do not depend on the min/max result.
\<close>

theorem no_min_max_single_split:
  assumes "(columnType \<noteq> BinaryType \<and>
             (pkMinMax = None \<or>
              (\<exists>r. pkMinMax = Some r \<and>
                 (length (Rows r) \<noteq> 1 \<or>
                  (\<exists>c0 c1. Rows r = [[c0, c1]] \<and> (IsNull c0 \<or> IsNull c1)))))) \<or>
           columnType = OtherType"
  shows "splitBoundaries fl st qs columnType pkMinMax = (Inr [], qs) \<and>
         split fl st sp qs columnType pkMinMax h =
           (Inr [\<lparr>Sql = sql qs, BindVariables = bindVariables qs, RowCount = 0\<rparr>], qs, h)"
proof -
  have b: "splitBoundaries fl st qs columnType pkMinMax = (Inr [], qs)"
    using assms
  proof (elim disjE conjE)
    assume "columnType = OtherType"
    then show ?thesis
      by (simp add: splitBoundaries_other)
  next
    assume "columnType \<noteq> BinaryType" and "pkMinMax = None"
    then show ?thesis
      by (simp add: splitBoundaries_no_min_max minMaxCells_none)
  next
    assume "columnType \<noteq> BinaryType"
      and "\<exists>r. pkMinMax = Some r \<and> (length (Rows r) \<noteq> 1 \<or>
             (\<exists>c0 c1. Rows r = [[c0, c1]] \<and> (IsNull c0 \<or> IsNull c1)))"
    then show ?thesis
      by (intro splitBoundaries_no_min_max minMaxCells_none) blast+
  qed
  then have "fst (splitBoundaries fl st qs columnType pkMinMax) = Inr []"
    by simp
  from split_no_boundaries [OF this, of sp h] b show ?thesis
    by simp
qed

theorem no_min_max_single_split_witness:
  "split exact_float64 decimal_sqltypes scenario_sqlparser (scenario_splitter 4) SignedType
       (Some \<lparr>Rows = [[NULL, NULL]]\<rparr>) empty_heap =
     (Inr [\<lparr>Sql = ''select * from t'', BindVariables = None, RowCount = 0\<rparr>],
      scenario_splitter 4, empty_heap) \<and>
   split exact_float64 decimal_sqltypes scenario_sqlparser (scenario_splitter 4) UnsignedType
       None empty_heap =
     (Inr [\<lparr>Sql = ''select * from t'', BindVariables = None, RowCount = 0\<rparr>],
      scenario_splitter 4, empty_heap) \<and>
   split exact_float64 decimal_sqltypes scenario_sqlparser (scenario_splitter 4) FloatType
       (Some \<lparr>Rows = []\<rparr>) empty_heap =
     (Inr [\<lparr>Sql = ''select * from t'', BindVariables = None, RowCount = 0\<rparr>],
      scenario_splitter 4, empty_heap) \<and>
   split exact_float64 decimal_sqltypes scenario_sqlparser (scenario_splitter 4) OtherType
       (minMaxResult OtherType ''0'' ''100'') empty_heap =
     (Inr [\<lparr>Sql = ''select * from t'', BindVariables = None, RowCount = 0\<rparr>],
      scenario_splitter 4, empty_heap)"
  using no_min_max_single_split [of SignedType "Some \<lparr>Rows = [[NULL, NULL]]\<rparr>" exact_float64
      decimal_sqltypes "scenario_splitter 4" scenario_sqlparser empty_heap]
    no_min_max_single_split [of UnsignedType None exact_float64
      decimal_sqltypes "scenario_splitter 4" scenario_sqlparser empty_heap]
    no_min_max_single_split [of FloatType "Some \<lparr>Rows = []\<rparr>" exact_float64
      decimal_sqltypes "scenario_splitter 4" scenario_sqlparser empty_heap]
    no_min_max_single_split [of OtherType "minMaxResult OtherType ''0'' ''100''" exact_float64
      decimal_sqltypes "scenario_splitter 4" scenario_sqlparser empty_heap]
  by (simp add: IsNull_def scenario_splitter_fields)

text \<open>
  C6 as stated fails for a binary column: with a nil min/max result and two
  splits requested, the boundary list holds the four bytes \<open>80 00 00 00\<close> and
  \<open>split\<close> returns two range queries.
\<close>

lemma byte_chars:
  "char_of (128 :: nat) = CHR 0x80" "char_of (0 :: nat) = CHR 0x00"
  by code_simp+

lemma scenario_binary_boundaries:
  "splitBoundaries exact_float64 decimal_sqltypes (scenario_splitter 2) BinaryType None =
     (Inr [Value BinaryType [CHR 0x80, CHR 0x00, CHR 0x00, CHR 0x00]],
      (scenario_splitter 2)\<lparr>rowCount := 2147483648\<rparr>)"
proof -
  have d: "div_int64 4294967296 2 = Inr 2147483648"
    by (simp add: div_int64_def signed_divide_int_def)
  have p: "PutUint32 (2147483648 :: uint32) = [128, 0, 0, 0]"
    by (simp add: PutUint32_def drop_bit_eq_div)
  have "forSigned (\<lambda>i. BuildValue_bytes decimal_sqltypes
           (PutUint32 ((2147483648 :: uint32) * ucast (i :: int64)))) 2 1 [] =
      Inr ([] @ map (\<lambda>k. Value BinaryType (map (\<lambda>b. char_of (unat b))
           (PutUint32 ((2147483648 :: uint32) * ucast (1 + of_nat k :: int64)))))
        [0..<nat (sint (2 :: int64) - sint (1 :: int64))])"
    by (rule forSigned_total [where f = "\<lambda>i. Value BinaryType (map (\<lambda>b. char_of (unat b))
           (PutUint32 ((2147483648 :: uint32) * ucast (i :: int64))))"])
      (simp add: decimal_sqltypes_simps)
  also have "\<dots> = Inr [Value BinaryType [CHR 0x80, CHR 0x00, CHR 0x00, CHR 0x00]]"
    by (simp add: upt_rec p byte_chars)
  finally have l: "forSigned (\<lambda>i. BuildValue_bytes decimal_sqltypes
           (PutUint32 ((2147483648 :: uint32) * ucast (i :: int64)))) 2 1 [] =
      Inr [Value BinaryType [CHR 0x80, CHR 0x00, CHR 0x00, CHR 0x00]]" .
  show ?thesis
    by (simp add: splitBoundaries_def splitBoundariesStringColumn_def Let_def d
        IsSigned_def IsUnsigned_def IsFloat_def IsBinary_def scenario_splitter_fields
        word_sless_alt l)
qed

theorem binary_ignores_nil_min_max:
  "fst (splitBoundaries exact_float64 decimal_sqltypes (scenario_splitter 2) BinaryType None) =
     Inr [Value BinaryType [CHR 0x80, CHR 0x00, CHR 0x00, CHR 0x00]] \<and>
   fst (splitBoundaries exact_float64 decimal_sqltypes (scenario_splitter 2) BinaryType None) \<noteq> Inr [] \<and>
   fst (split exact_float64 decimal_sqltypes scenario_sqlparser (scenario_splitter 2) BinaryType
          None empty_heap) =
     Inr [\<lparr>Sql = ''select * from t where id < :_splitquery_end'',
            BindVariables = Some 0, RowCount = 2147483648\<rparr>,
          \<lparr>Sql = ''select * from t where id >= :_splitquery_start'',
            BindVariables = Some 1, RowCount = 2147483648\<rparr>]"
  by (simp add: split_def scenario_binary_boundaries scenario_splitter_fields copy_map_def make_map_def
      deref_def empty_heap_def getWhereClause_def mapassign_def IsNull_def Let_def
      scenario_sqlparser_String rendered_A select_from_t_Where
      GreaterEqualStr_def LessThanStr_def NewValArg_def startBindVarName_def endBindVarName_def)

section \<open>A split count of one\<close>

lemma div_int64_one:
  "div_int64 a 1 = Inr a"
proof -
  have "sint a sdiv 1 = sint a"
    by (simp add: signed_divide_int_def sgn_mult_abs)
  then show ?thesis
    by (simp add: div_int64_def)
qed

lemma div_uint64_one:
  "div_uint64 a 1 = Inr a"
  by (simp add: div_uint64_def)

lemma splitBoundaries_count_one:
  assumes "splitCount qs = 1"
    and "fst (splitBoundaries fl st qs columnType pkMinMax) = Inr bs"
  shows "bs = []"
  using assms
  by (auto simp: splitBoundaries_def splitBoundariesIntColumn_def splitBoundariesUintColumn_def
      splitBoundariesFloatColumn_def splitBoundariesStringColumn_def Let_def ret_def
      div_int64_one div_uint64_one forSigned_done forUnsigned_done
      split: if_splits sum.splits option.splits)

lemma split_propagates_error:
  assumes "fst (splitBoundaries fl st qs columnType pkMinMax) = Inl e"
  shows "fst (split fl st sp qs columnType pkMinMax h) = Inl e"
  using assms by (cases "splitBoundaries fl st qs columnType pkMinMax") (simp add: split_def)

lemma splitBoundaries_count_one_ok:
  assumes "splitCount qs = 1"
  shows "columnType = BinaryType \<or> columnType = OtherType \<or> minMaxCells pkMinMax = Inr None \<Longrightarrow>
           fst (splitBoundaries fl st qs columnType pkMinMax) = Inr []"
    and "columnType = SignedType \<Longrightarrow> minMaxCells pkMinMax = Inr (Some (c0, c1)) \<Longrightarrow>
           ParseInt64 st c0 = Inr mn \<Longrightarrow> ParseInt64 st c1 = Inr mx \<Longrightarrow>
           fst (splitBoundaries fl st qs columnType pkMinMax) = Inr []"
    and "columnType = UnsignedType \<Longrightarrow> minMaxCells pkMinMax = Inr (Some (c0, c1)) \<Longrightarrow>
           ParseUint64 st c0 = Inr mn \<Longrightarrow> ParseUint64 st c1 = Inr mx \<Longrightarrow>
           fst (splitBoundaries fl st qs columnType pkMinMax) = Inr []"
    and "columnType = FloatType \<Longrightarrow> minMaxCells pkMinMax = Inr (Some (c0, c1)) \<Longrightarrow>
           ParseFloat_String st c0 = Inr fmn \<Longrightarrow> ParseFloat_String st c1 = Inr fmx \<Longrightarrow>
           fst (splitBoundaries fl st qs columnType pkMinMax) = Inr []"
  using assms
  by (auto simp: splitBoundaries_def splitBoundariesIntColumn_def splitBoundariesUintColumn_def
      splitBoundariesFloatColumn_def splitBoundariesStringColumn_def Let_def ret_def
      IsSigned_def IsUnsigned_def IsFloat_def IsBinary_def
      div_int64_one div_uint64_one forSigned_done forUnsigned_done div_int64_def)

text \<open>
  C9: \<open>NewQuerySplitter\<close> stores 1 for every requested split count below 1. With a
  split count of 1, whatever the column type, every list of splits that \<open>split\<close>
  returns is the one split carrying the original query text and the original bind
  variables, with the row count left at zero, and the store of maps is untouched.
  \<open>split\<close> does return then: always for a binary or an unsupported column and when
  there is no usable min/max, and for a numeric column whenever minimum and maximum
  parse; the only other outcomes are the parse error or the panic on a malformed result.
\<close>

theorem split_count_one:
  "(splitCount0 <s 1 \<longrightarrow> splitCount (NewQuerySplitter sql0 bv0 col0 splitCount0 se0) = 1) \<and>
   (splitCount qs = 1 \<longrightarrow>
      (\<forall>splits qs' h'. split fl st sp qs columnType pkMinMax h = (Inr splits, qs', h') \<longrightarrow>
         splits = [\<lparr>Sql = sql qs, BindVariables = bindVariables qs, RowCount = 0\<rparr>] \<and> h' = h)) \<and>
   (splitCount qs = 1 \<and>
      (columnType = BinaryType \<or> columnType = OtherType \<or> minMaxCells pkMinMax = Inr None \<or>
       (columnType = SignedType \<and> minMaxCells pkMinMax = Inr (Some (c0, c1)) \<and>
          ParseInt64 st c0 = Inr mn \<and> ParseInt64 st c1 = Inr mx) \<or>
       (columnType = UnsignedType \<and> minMaxCells pkMinMax = Inr (Some (c0, c1)) \<and>
          ParseUint64 st c0 = Inr mn \<and> ParseUint64 st c1 = Inr mx) \<or>
       (columnType = FloatType \<and> minMaxCells pkMinMax = Inr (Some (c0, c1)) \<and>
          ParseFloat_String st c0 = Inr fmn \<and> ParseFloat_String st c1 = Inr fmx)) \<longrightarrow>
      fst (split fl st sp qs columnType pkMinMax h) =
        Inr [\<lparr>Sql = sql qs, BindVariables = bindVariables qs, RowCount = 0\<rparr>]) \<and>
   (splitCount qs = 1 \<longrightarrow>
      (\<forall>e. fst (split fl st sp qs columnType pkMinMax h) = Inl e \<longrightarrow>
         fst (splitBoundaries fl st qs columnType pkMinMax) = Inl e))"
proof (intro conjI impI allI)
  assume "splitCount0 <s 1"
  then show "splitCount (NewQuerySplitter sql0 bv0 col0 splitCount0 se0) = 1"
    by (simp add: NewQuerySplitter_def)
next
  fix splits qs' h'
  assume one: "splitCount qs = 1"
    and r: "split fl st sp qs columnType pkMinMax h = (Inr splits, qs', h')"
  obtain bs where b: "fst (splitBoundaries fl st qs columnType pkMinMax) = Inr bs"
    using r split_propagates_error [of fl st qs columnType pkMinMax _ sp h]
    by (cases "fst (splitBoundaries fl st qs columnType pkMinMax)") auto
  have "bs = []"
    using splitBoundaries_count_one [OF one b] .
  with b have "fst (splitBoundaries fl st qs columnType pkMinMax) = Inr []"
    by simp
  from split_no_boundaries [OF this, of sp h] r
  show "splits = [\<lparr>Sql = sql qs, BindVariables = bindVariables qs, RowCount = 0\<rparr>]"
    and "h' = h"
    by simp_all
next
  assume a: "splitCount qs = 1 \<and>
      (columnType = BinaryType \<or> columnType = OtherType \<or> minMaxCells pkMinMax = Inr None \<or>
       (columnType = SignedType \<and> minMaxCells pkMinMax = Inr (Some (c0, c1)) \<and>
          ParseInt64 st c0 = Inr mn \<and> ParseInt64 st c1 = Inr mx) \<or>
       (columnType = UnsignedType \<and> minMaxCells pkMinMax = Inr (Some (c0, c1)) \<and>
          ParseUint64 st c0 = Inr mn \<and> ParseUint64 st c1 = Inr mx) \<or>
       (columnType = FloatType \<and> minMaxCells pkMinMax = Inr (Some (c0, c1)) \<and>
          ParseFloat_String st c0 = Inr fmn \<and> ParseFloat_String st c1 = Inr fmx))"
  then have one: "splitCount qs = 1"
    by simp
  have "fst (splitBoundaries fl st qs columnType pkMinMax) = Inr []"
    using a
  proof (elim conjE disjE)
    assume "columnType = BinaryType"
    then show ?thesis
      by (intro splitBoundaries_count_one_ok(1) [OF one]) simp
  next
    assume "columnType = OtherType"
    then show ?thesis
      by (intro splitBoundaries_count_one_ok(1) [OF one]) simp
  next
    assume "minMaxCells pkMinMax = Inr None"
    then show ?thesis
      by (intro splitBoundaries_count_one_ok(1) [OF one]) simp
  next
    assume "columnType = SignedType" "minMaxCells pkMinMax = Inr (Some (c0, c1))"
      "ParseInt64 st c0 = Inr mn" "ParseInt64 st c1 = Inr mx"
    then show ?thesis
      by (rule splitBoundaries_count_one_ok(2) [OF one])
  next
    assume "columnType = UnsignedType" "minMaxCells pkMinMax = Inr (Some (c0, c1))"
      "ParseUint64 st c0 = Inr mn" "ParseUint64 st c1 = Inr mx"
    then show ?thesis
      by (rule splitBoundaries_count_one_ok(3) [OF one])
  next
    assume "columnType = FloatType" "minMaxCells pkMinMax = Inr (Some (c0, c1))"
      "ParseFloat_String st c0 = Inr fmn" "ParseFloat_String st c1 = Inr fmx"
    then show ?thesis
      by (rule splitBoundaries_count_one_ok(4) [OF one])
  qed
  from split_no_boundaries [OF this, of sp h]
  show "fst (split fl st sp qs columnType pkMinMax h) =
        Inr [\<lparr>Sql = sql qs, BindVariables = bindVariables qs, RowCount = 0\<rparr>]"
    by simp
next
  fix e
  assume one: "splitCount qs = 1"
    and r: "fst (split fl st sp qs columnType pkMinMax h) = Inl e"
  show "fst (splitBoundaries fl st qs columnType pkMinMax) = Inl e"
  proof (cases "fst (splitBoundaries fl st qs columnType pkMinMax)")
    case (Inl e')
    from split_propagates_error [OF this, of sp h] r show ?thesis
      using Inl by simp
  next
    case (Inr bs)
    have "bs = []"
      using splitBoundaries_count_one [OF one Inr] .
    with Inr have "fst (splitBoundaries fl st qs columnType pkMinMax) = Inr []"
      by simp
    from split_no_boundaries [OF this, of sp h] r show ?thesis
      by simp
  qed
qed

theorem split_count_one_witness:
  "splitCount (NewQuerySplitter ''select * from t'' None [] (- 3) scenario_schema) = 1 \<and>
   splitCount (scenario_splitter 0) = 1 \<and>
   fst (split exact_float64 decimal_sqltypes scenario_sqlparser (scenario_splitter 0) SignedType
          (minMaxResult SignedType ''0'' ''100'') empty_heap) =
     Inr [\<lparr>Sql = ''select * from t'', BindVariables = None, RowCount = 0\<rparr>] \<and>
   fst (split exact_float64 decimal_sqltypes scenario_sqlparser (scenario_splitter 1) BinaryType
          None empty_heap) =
     Inr [\<lparr>Sql = ''select * from t'', BindVariables = None, RowCount = 0\<rparr>]"
proof -
  have neg: "(- 3 :: int64) <s 1" and zero: "(0 :: int64) <s 1"
    by (simp_all add: word_sless_alt)
  have c0: "splitCount (scenario_splitter 0) = 1" and c1: "splitCount (scenario_splitter 1) = 1"
    by (simp_all add: scenario_splitter_fields word_sless_alt)
  have cells: "minMaxCells (minMaxResult SignedType ''0'' ''100'') =
      Inr (Some (Value SignedType ''0'', Value SignedType ''100''))"
    by (simp add: minMaxResult_def minMaxCells_row IsNull_def)
  have p: "ParseInt64 decimal_sqltypes (Value SignedType ''0'') = Inr 0"
    "ParseInt64 decimal_sqltypes (Value SignedType ''100'') = Inr 100"
    by (simp_all add: decimal_sqltypes_simps parse_0_100)
  show ?thesis
    using split_count_one [of "- 3" "''select * from t''" None "[]" scenario_schema
        "scenario_splitter 0" exact_float64 decimal_sqltypes scenario_sqlparser SignedType
        "minMaxResult SignedType ''0'' ''100''" empty_heap "Value SignedType ''0''"
        "Value SignedType ''100''" 0 100]
      split_count_one [of "- 3" "''select * from t''" None "[]" scenario_schema
        "scenario_splitter 1" exact_float64 decimal_sqltypes scenario_sqlparser BinaryType
        None empty_heap]
    by (simp add: neg zero c0 c1 cells p scenario_splitter_fields(1-4))
qed

section \<open>Binary columns\<close>

lemma ucast_drop_bit:
  "(ucast (drop_bit n (v :: uint32)) :: byte) = of_nat (unat v div 2 ^ n)"
proof -
  have "unat (drop_bit n v) = unat v div 2 ^ n"
    by (subst unat_drop_bit_eq) (rule drop_bit_eq_div)
  then have "(of_nat (unat v div 2 ^ n) :: byte) = of_nat (unat (drop_bit n v))"
    by (simp only:)
  also have "\<dots> = ucast (drop_bit n v)"
    by (simp only: of_nat_unat)
  finally show ?thesis
    by (rule sym)
qed

lemma PutUint32_be32:
  "PutUint32 v = be32 (unat v)"
  unfolding PutUint32_def be32_def ucast_drop_bit
  by (simp only: of_nat_unat)

lemma ucast_64_32_of_nat:
  "(ucast (of_nat n :: int64) :: uint32) = of_nat n"
  using ucast_down_wi [where 'a = 64 and 'b = 32 and x = "int n"]
  by (simp add: is_down)

lemma map_upt_from_one:
  "map (\<lambda>k. g (1 + k)) [0..<n - 1] = map g [1..<n]"
proof (cases n)
  case 0
  then show ?thesis by simp
next
  case (Suc m)
  have "[1..<Suc m] = map Suc [0..<m]"
    by (simp only: map_Suc_upt One_nat_def)
  then show ?thesis
    using Suc by (simp add: comp_def)
qed

text \<open>
  C7: for a binary column the boundaries do not depend on the min/max result. With
  \<open>splitSize = 2^32 / splitCount\<close> by truncating division, the boundary for
  \<open>i\<close> in \<open>1..splitCount - 1\<close> is the big-endian 4-byte encoding of
  \<open>splitSize * i\<close> taken modulo \<open>2^32\<close> (the product is one of 32-bit unsigned
  integers), handed to \<open>BuildValue\<close>, and the row-count estimate is \<open>splitSize\<close>.
  The split count is not zero (\<open>NewQuerySplitter\<close> stores none below 1), and
  \<open>BuildValue\<close> accepts every byte slice.
\<close>

theorem binary_boundaries:
  assumes nz: "splitCount qs \<noteq> 0"
    and bv: "\<And>bs. BuildValue_bytes st bs = Inr (bv bs)"
  shows "splitBoundaries fl st qs BinaryType pkMinMax =
     (Inr (map (\<lambda>i. bv (be32 ((nat (2 ^ 32 sdiv sint (splitCount qs)) * i) mod 2 ^ 32)))
             [1..<nat (sint (splitCount qs))]),
      qs\<lparr>rowCount := word_of_int (2 ^ 32 sdiv sint (splitCount qs))\<rparr>)"
proof -
  let ?sc = "splitCount qs"
  let ?q = "2 ^ 32 sdiv sint ?sc :: int"
  let ?S = "word_of_int ?q :: int64"
  let ?f = "\<lambda>i :: int64. bv (PutUint32 ((ucast ?S :: uint32) * (ucast i :: uint32)))"
  let ?g = "\<lambda>i :: nat. bv (be32 ((nat ?q * i) mod 2 ^ 32))"
  have d: "div_int64 (0xFFFFFFFF + 1) ?sc = Inr ?S"
    using nz by (simp add: div_int64_def)
  have "forSigned (\<lambda>i. BuildValue_bytes st (PutUint32 ((ucast ?S :: uint32) * (ucast i :: uint32))))
          ?sc 1 [] =
        Inr ([] @ map (\<lambda>k. ?f (1 + of_nat k)) [0..<nat (sint ?sc - sint (1 :: int64))])"
    by (rule forSigned_total [where f = ?f]) (simp add: bv)
  also have "map (\<lambda>k. ?f (1 + of_nat k)) [0..<nat (sint ?sc - sint (1 :: int64))] =
      map (\<lambda>i. ?f (of_nat i)) [1..<nat (sint ?sc)]"
  proof -
    have n: "nat (sint ?sc - sint (1 :: int64)) = nat (sint ?sc) - 1"
      by simp
    show ?thesis
      unfolding n using map_upt_from_one [of "\<lambda>i. ?f (of_nat i)" "nat (sint ?sc)"]
      by simp
  qed
  also have "\<dots> = map ?g [1..<nat (sint ?sc)]"
  proof (rule map_cong [OF refl])
    fix i
    assume "i \<in> set [1..<nat (sint ?sc)]"
    then have pos: "0 < sint ?sc"
      by auto
    then have q: "0 \<le> ?q"
      by (simp add: signed_divide_int_def pos_imp_zdiv_nonneg_iff)
    have "(ucast ?S :: uint32) = word_of_int ?q"
      by (rule ucast_down_wi) (simp add: is_down)
    also have "\<dots> = of_nat (nat ?q)"
      using q by simp
    finally have S: "(ucast ?S :: uint32) = of_nat (nat ?q)" .
    have "(ucast ?S :: uint32) * ucast (of_nat i :: int64) = of_nat (nat ?q * i)"
      by (simp only: S ucast_64_32_of_nat of_nat_mult)
    then show "?f (of_nat i) = ?g i"
      by (simp only: PutUint32_be32 unat_of_nat) simp
  qed
  finally have l: "forSigned (\<lambda>i. BuildValue_bytes st
        (PutUint32 ((ucast ?S :: uint32) * (ucast i :: uint32)))) ?sc 1 [] =
      Inr (map ?g [1..<nat (sint ?sc)])"
    by simp
  show ?thesis
    unfolding splitBoundaries_def splitBoundariesStringColumn_def Let_def d
    using l by (simp add: IsSigned_def IsUnsigned_def IsFloat_def IsBinary_def)
qed

theorem binary_boundaries_witness:
  "splitCount (scenario_splitter 4) \<noteq> 0 \<and>
   splitBoundaries exact_float64 decimal_sqltypes (scenario_splitter 4) BinaryType
       (minMaxResult BinaryType ''a'' ''z'') =
     (Inr [Value BinaryType (map (\<lambda>b. char_of (unat b)) [0x40, 0, 0, 0 :: byte]),
           Value BinaryType (map (\<lambda>b. char_of (unat b)) [0x80, 0, 0, 0 :: byte]),
           Value BinaryType (map (\<lambda>b. char_of (unat b)) [0xC0, 0, 0, 0 :: byte])],
      (scenario_splitter 4)\<lparr>rowCount := 1073741824\<rparr>)"
proof -
  have c: "splitCount (scenario_splitter 4) = 4"
    by (simp add: scenario_splitter_fields word_sless_alt)
  have q: "(2 ^ 32 :: int) sdiv sint (4 :: int64) = 1073741824"
    by (simp add: signed_divide_int_def)
  have u: "[1..<nat (sint (4 :: int64))] = [1, 2, 3]"
    by (simp add: upt_rec)
  show ?thesis
    using binary_boundaries [of "scenario_splitter 4" decimal_sqltypes
        "\<lambda>bs. Value BinaryType (map (\<lambda>b. char_of (unat b)) bs)" exact_float64
        "minMaxResult BinaryType ''a'' ''z''"]
    by (simp add: c q u decimal_sqltypes_simps be32_def upt_rec)
qed

section \<open>The bind-variable maps of the splits\<close>









section \<open>Signed integer columns\<close>

lemma int64_range:
  fixes x :: int64
  shows "- (2 ^ 63) \<le> sint x" "sint x < 2 ^ 63"
  using sint_ge [of x] sint_lt [of x] by simp_all

lemma sint_word_of_int_64:
  "- (2 ^ 63) \<le> k \<Longrightarrow> k < 2 ^ 63 \<Longrightarrow> sint (word_of_int k :: int64) = k"
  by (simp add: sint_sbintrunc' signed_take_bit_int_eq_self)

lemma div_mult_le_int:
  fixes a b :: int
  assumes "0 < b"
  shows "a div b * b \<le> a"
proof -
  have "a div b * b = a - a mod b"
    by (simp add: minus_mod_eq_div_mult)
  then show ?thesis
    using assms by simp
qed

lemma div_le_self_int:
  fixes a b :: int
  assumes "0 \<le> a" and "1 \<le> b"
  shows "a div b \<le> a"
proof -
  have "0 \<le> a div b"
    using assms by (simp add: pos_imp_zdiv_nonneg_iff)
  then have "a div b * 1 \<le> a div b * b"
    using assms by (intro mult_left_mono) simp_all
  also have "\<dots> \<le> a"
    using assms by (intro div_mult_le_int) simp
  finally show ?thesis
    by simp
qed

lemma int_interval_exact:
  fixes mn mx sc interval :: int64
  assumes sc: "1 \<le>s sc" and order: "mn \<le>s mx"
    and iv: "div_int64 (mx - mn) sc = Inr interval" and pos: "0 <s interval"
  shows "sint (mx - mn) = sint mx - sint mn"
    and "sint interval = (sint mx - sint mn) div sint sc"
proof -
  let ?D = "sint mx - sint mn"
  have s1: "1 \<le> sint sc"
    using sc by (simp add: word_sle_eq)
  have D0: "0 \<le> ?D"
    using order by (simp add: word_sle_eq)
  have D64: "?D < 2 ^ 64"
    using int64_range [of mx] int64_range [of mn] by simp
  have sub: "sint (mx - mn) = signed_take_bit 63 ?D"
    by (simp add: sint_word_ariths)
  have ivdef: "interval = word_of_int (sint (mx - mn) sdiv sint sc)"
    using iv s1 by (auto simp: div_int64_def split: if_splits)
  have small: "?D < 2 ^ 63"
  proof (rule ccontr)
    assume "\<not> ?D < 2 ^ 63"
    then have big: "2 ^ 63 \<le> ?D"
      by simp
    have le: "signed_take_bit 63 ?D \<le> ?D - 2 ^ Suc 63"
      using big by (rule signed_take_bit_int_less_eq)
    have p: "(2 :: int) ^ Suc 63 = 2 ^ 64"
      by simp
    have neg: "sint (mx - mn) < 0"
      using le sub D64 unfolding p by linarith
    have lo: "- (2 ^ 63) \<le> sint (mx - mn)"
      by (rule int64_range)
    let ?a = "sint (mx - mn)"
    have q: "?a sdiv sint sc = - (\<bar>?a\<bar> div sint sc)"
      using neg s1 by (simp add: signed_divide_int_def)
    have "0 \<le> \<bar>?a\<bar> div sint sc"
      using s1 by (simp add: pos_imp_zdiv_nonneg_iff)
    moreover have "\<bar>?a\<bar> div sint sc \<le> \<bar>?a\<bar>"
      using s1 by (intro div_le_self_int) simp_all
    ultimately have "- (2 ^ 63) \<le> ?a sdiv sint sc" "?a sdiv sint sc \<le> 0"
      using q lo neg by simp_all
    then have "sint interval \<le> 0"
      by (simp add: ivdef sint_word_of_int_64)
    then show False
      using pos by (simp add: word_sless_alt)
  qed
  show exact: "sint (mx - mn) = ?D"
    using sub D0 small by (simp add: signed_take_bit_int_eq_self)
  have q: "sint (mx - mn) sdiv sint sc = ?D div sint sc"
    using exact D0 s1 by (simp add: signed_divide_int_def sgn_if)
  have "0 \<le> ?D div sint sc" "?D div sint sc \<le> ?D"
    using D0 s1 by (simp_all add: pos_imp_zdiv_nonneg_iff div_le_self_int)
  then show "sint interval = ?D div sint sc"
    using small by (simp add: ivdef q sint_word_of_int_64)
qed

lemma int_boundary_exact:
  fixes mn mx sc interval :: int64
  assumes sc: "1 \<le>s sc" and order: "mn \<le>s mx"
    and iv: "div_int64 (mx - mn) sc = Inr interval" and pos: "0 <s interval"
    and i: "1 \<le> i" "i < nat (sint sc)"
  shows "sint (mn + interval * of_nat i) = sint mn + sint interval * int i"
    and "sint mn + sint interval * int i < sint mx"
proof -
  let ?D = "sint mx - sint mn"
  let ?q = "sint interval"
  have s1: "1 \<le> sint sc"
    using sc by (simp add: word_sle_eq)
  have q: "?q = ?D div sint sc"
    using int_interval_exact(2) [OF sc order iv pos] .
  have qpos: "0 < ?q"
    using pos by (simp add: word_sless_alt)
  have "?q * sint sc \<le> ?D"
    unfolding q using s1 by (intro div_mult_le_int) simp
  moreover have "?q * int i \<le> ?q * (sint sc - 1)"
    using i qpos by (intro mult_left_mono) simp_all
  ultimately have le: "?q * int i \<le> ?D - ?q"
    by (simp add: algebra_simps)
  then show below: "sint mn + ?q * int i < sint mx"
    using qpos by simp
  have nonneg: "0 \<le> ?q * int i"
    using qpos by simp
  have "mn + interval * of_nat i = word_of_int (sint mn + ?q * int i)"
    by simp
  then have "sint (mn + interval * of_nat i) = sint (word_of_int (sint mn + ?q * int i) :: int64)"
    by simp
  also have "\<dots> = sint mn + ?q * int i"
    using below nonneg int64_range [of mn] int64_range [of mx]
    by (intro sint_word_of_int_64) simp_all
  finally show "sint (mn + interval * of_nat i) = sint mn + ?q * int i" .
qed

text \<open>
  C2, as amended: take a signed column with a one-row min/max result, neither cell null,
  both parsing as 64-bit integers, and a split count of at least 1; let \<open>interval\<close>
  be \<open>(max - min) / splitCount\<close> as the code computes it, in 64-bit arithmetic with
  truncating division, and let it be positive. Then the boundary list has
  \<open>splitCount - 1\<close> elements, the one for \<open>i\<close> in \<open>1..splitCount - 1\<close> built
  from \<open>min + interval * i\<close>; the row-count estimate is \<open>interval\<close>; and
  \<open>split\<close> returns \<open>splitCount\<close> splits. If moreover \<open>min \<le> max\<close>, no
  addition or multiplication wraps around and the boundaries are strictly increasing.
  \<open>BuildValue\<close> accepts every \<open>int64\<close>.
\<close>

theorem int_boundaries:
  assumes cells: "pkMinMax = Some \<lparr>Rows = [[c0, c1]]\<rparr>" "\<not> IsNull c0" "\<not> IsNull c1"
    and parse: "ParseInt64 st c0 = Inr mn" "ParseInt64 st c1 = Inr mx"
    and sc: "1 \<le>s splitCount qs"
    and iv: "div_int64 (mx - mn) (splitCount qs) = Inr interval" and pos: "0 <s interval"
    and bv: "\<And>x. BuildValue_int64 st x = Inr (bv x)"
    and validated: "sel qs \<noteq> None"
  shows
  "splitBoundaries fl st qs SignedType pkMinMax =
     (Inr (map (\<lambda>i. bv (mn + interval * of_nat i)) [1..<nat (sint (splitCount qs))]),
      qs\<lparr>rowCount := interval\<rparr>) \<and>
   length (map (\<lambda>i. bv (mn + interval * of_nat i)) [1..<nat (sint (splitCount qs))]) =
     nat (sint (splitCount qs)) - 1 \<and>
   (\<exists>splits qs' h'. split fl st sp qs SignedType pkMinMax h = (Inr splits, qs', h') \<and>
      length splits = nat (sint (splitCount qs)) \<and> rowCount qs' = interval) \<and>
   (mn \<le>s mx \<longrightarrow>
      (\<forall>i. 1 \<le> i \<and> i < nat (sint (splitCount qs)) \<longrightarrow>
         sint (mn + interval * of_nat i) = sint mn + sint interval * int i) \<and>
      (\<forall>i j. 1 \<le> i \<and> i < j \<and> j < nat (sint (splitCount qs)) \<longrightarrow>
         mn + interval * of_nat i <s mn + interval * of_nat j))"
proof (intro conjI impI allI)
  let ?n = "nat (sint (splitCount qs))"
  let ?bs = "map (\<lambda>i. bv (mn + interval * of_nat i)) [1..<?n]"
  have nz: "interval \<noteq> 0"
    using pos by auto
  have n1: "1 \<le> ?n"
    using sc by (simp add: word_sle_eq)
  have "forSigned (\<lambda>i. BuildValue_int64 st (mn + interval * i)) (splitCount qs) 1 [] =
      Inr ([] @ map (\<lambda>k. bv (mn + interval * (1 + of_nat k)))
        [0..<nat (sint (splitCount qs) - sint (1 :: int64))])"
    by (rule forSigned_total [where f = "\<lambda>i. bv (mn + interval * i)"]) (rule bv)
  also have "map (\<lambda>k. bv (mn + interval * (1 + of_nat k)))
        [0..<nat (sint (splitCount qs) - sint (1 :: int64))] = ?bs"
  proof -
    have n: "nat (sint (splitCount qs) - sint (1 :: int64)) = ?n - 1"
      by simp
    show ?thesis
      unfolding n using map_upt_from_one [of "\<lambda>i. bv (mn + interval * of_nat i)" ?n]
      by simp
  qed
  finally have l: "forSigned (\<lambda>i. BuildValue_int64 st (mn + interval * i)) (splitCount qs) 1 [] =
      Inr ?bs"
    by simp
  show b: "splitBoundaries fl st qs SignedType pkMinMax = (Inr ?bs, qs\<lparr>rowCount := interval\<rparr>)"
    using l by (simp add: splitBoundaries_def IsSigned_def splitBoundariesIntColumn_def
        cells minMaxCells_row parse iv nz Let_def)
  show len: "length ?bs = ?n - 1"
    by simp
  obtain s where s: "sel qs = Some s"
    using validated by blast
  show "\<exists>splits qs' h'. split fl st sp qs SignedType pkMinMax h = (Inr splits, qs', h') \<and>
      length splits = ?n \<and> rowCount qs' = interval"
  proof (cases "?bs = []")
    case True
    then have "length ?bs = 0"
      by (simp only: list.size)
    then have "?n - 1 = 0"
      by (simp only: len)
    then have "?n = 1"
      using n1 by arith
    moreover have "fst (splitBoundaries fl st qs SignedType pkMinMax) = Inr []"
      using b True by simp
    ultimately show ?thesis
      using split_no_boundaries [of fl st qs SignedType pkMinMax sp h] b by simp
  next
    case False
    obtain splits h1 where
      "length splits = Suc (length ?bs)"
      "split fl st sp qs SignedType pkMinMax h = (Inr splits, qs\<lparr>rowCount := interval\<rparr>, h1)"
      using split_with_boundaries [OF b False s, of sp h] by blast
    then show ?thesis
      using n1 by simp
  qed
next
  fix i
  assume order: "mn \<le>s mx" and i: "1 \<le> i \<and> i < nat (sint (splitCount qs))"
  then show "sint (mn + interval * of_nat i) = sint mn + sint interval * int i"
    using int_boundary_exact(1) [OF sc order iv pos] by blast
next
  fix i j
  assume order: "mn \<le>s mx" and ij: "1 \<le> i \<and> i < j \<and> j < nat (sint (splitCount qs))"
  then have i: "1 \<le> i" "i < nat (sint (splitCount qs))" and j: "1 \<le> j" "j < nat (sint (splitCount qs))"
    by simp_all
  have qpos: "0 < sint interval"
    using pos by (simp add: word_sless_alt)
  have "sint (mn + interval * of_nat i) = sint mn + sint interval * int i"
    by (rule int_boundary_exact(1) [OF sc order iv pos i])
  moreover have "sint (mn + interval * of_nat j) = sint mn + sint interval * int j"
    by (rule int_boundary_exact(1) [OF sc order iv pos j])
  moreover have "sint interval * int i < sint interval * int j"
    using qpos ij by simp
  ultimately show "mn + interval * of_nat i <s mn + interval * of_nat j"
    unfolding word_sless_alt by linarith
qed

theorem int_boundaries_witness:
  "splitBoundaries exact_float64 decimal_sqltypes (scenario_splitter 4) SignedType
       (minMaxResult SignedType ''0'' ''100'') =
     (Inr [Value SignedType ''25'', Value SignedType ''50'', Value SignedType ''75''],
      (scenario_splitter 4)\<lparr>rowCount := 25\<rparr>) \<and>
   (25 :: int64) <s 50 \<and> (50 :: int64) <s 75 \<and>
   (\<exists>splits qs' h'.
      split exact_float64 decimal_sqltypes scenario_sqlparser (scenario_splitter 4) SignedType
        (minMaxResult SignedType ''0'' ''100'') empty_heap = (Inr splits, qs', h') \<and>
      length splits = 4 \<and> rowCount qs' = 25)"
proof -
  have c: "splitCount (scenario_splitter 4) = 4"
    by (simp add: scenario_splitter_fields word_sless_alt)
  have d: "div_int64 (100 - 0) (splitCount (scenario_splitter 4)) = Inr 25"
    by (simp add: c div_int64_def signed_divide_int_def)
  note t = int_boundaries [where pkMinMax = "minMaxResult SignedType ''0'' ''100''"
      and ?c0.0 = "Value SignedType ''0''" and ?c1.0 = "Value SignedType ''100''"
      and st = decimal_sqltypes and mn = 0 and mx = 100 and qs = "scenario_splitter 4"
      and interval = 25 and bv = "\<lambda>x. Value SignedType (show_decimal (sint x))"
      and fl = exact_float64 and sp = scenario_sqlparser and h = empty_heap,
      OF _ _ _ _ _ _ d]
  have "splitBoundaries exact_float64 decimal_sqltypes (scenario_splitter 4) SignedType
       (minMaxResult SignedType ''0'' ''100'') =
     (Inr (map (\<lambda>i. Value SignedType (show_decimal (sint (0 + 25 * of_nat i :: int64))))
        [1..<nat (sint (splitCount (scenario_splitter 4)))]),
      (scenario_splitter 4)\<lparr>rowCount := 25\<rparr>) \<and>
   length (map (\<lambda>i. Value SignedType (show_decimal (sint (0 + 25 * of_nat i :: int64))))
        [1..<nat (sint (splitCount (scenario_splitter 4)))]) =
     nat (sint (splitCount (scenario_splitter 4))) - 1 \<and>
   (\<exists>splits qs' h'.
      split exact_float64 decimal_sqltypes scenario_sqlparser (scenario_splitter 4) SignedType
        (minMaxResult SignedType ''0'' ''100'') empty_heap = (Inr splits, qs', h') \<and>
      length splits = nat (sint (splitCount (scenario_splitter 4))) \<and> rowCount qs' = 25) \<and>
   ((0 :: int64) \<le>s 100 \<longrightarrow>
      (\<forall>i. 1 \<le> i \<and> i < nat (sint (splitCount (scenario_splitter 4))) \<longrightarrow>
         sint (0 + 25 * of_nat i :: int64) = sint (0 :: int64) + sint (25 :: int64) * int i) \<and>
      (\<forall>i j. 1 \<le> i \<and> i < j \<and> j < nat (sint (splitCount (scenario_splitter 4))) \<longrightarrow>
         (0 + 25 * of_nat i :: int64) <s 0 + 25 * of_nat j))"
    by (rule t)
      (simp_all add: minMaxResult_def IsNull_def decimal_sqltypes_simps parse_0_100 c
        word_sle_eq word_sless_alt scenario_splitter_fields)
  then show ?thesis
    by (simp add: c upt_rec show_25_50_75 word_sless_alt)
qed

lemma parse_extremes:
  "decimal_ParseInt64 (Value SignedType ''9223372036854775801'') = Inr 9223372036854775801"
  "decimal_ParseInt64 (Value SignedType ''-9223372036854775799'') = Inr (- 9223372036854775799)"
  "decimal_ParseInt64 (Value SignedType ''-9223372036854775808'') = Inr (- 9223372036854775808)"
  "decimal_ParseInt64 (Value SignedType ''9223372036854775807'') = Inr 9223372036854775807"
  by code_simp+

lemma show_extremes:
  "show_decimal 9223372036854775806 = ''9223372036854775806''"
  "show_decimal (- 9223372036854775805) = ''-9223372036854775805''"
  by code_simp+

text \<open>
  C2 as stated fails where the 64-bit arithmetic wraps around. With minimum
  \<open>2^63 - 7\<close>, maximum \<open>- 2^63 + 9\<close> and three splits the code computes the
  difference 16 and the positive interval 5, and the two boundaries \<open>2^63 - 2\<close> and
  \<open>- 2^63 + 3\<close> are not increasing. With the interval read in exact arithmetic the
  claim fails as well: for the minimum \<open>- 2^63\<close>, the maximum \<open>2^63 - 1\<close> and two
  splits that interval is \<open>2^63 - 1\<close>, while the code computes the difference
  \<open>- 1\<close> and the interval 0 and returns the original query as the only split.
\<close>

theorem int_boundaries_wrap_around:
  "div_int64 ((- 9223372036854775799) - 9223372036854775801) 3 = Inr 5 \<and>
   (0 :: int64) <s 5 \<and>
   fst (splitBoundaries exact_float64 decimal_sqltypes (scenario_splitter 3) SignedType
          (minMaxResult SignedType ''9223372036854775801'' ''-9223372036854775799'')) =
     Inr [Value SignedType ''9223372036854775806'', Value SignedType ''-9223372036854775805''] \<and>
   \<not> ((9223372036854775801 + 5 * 1 :: int64) <s 9223372036854775801 + 5 * 2) \<and>
   (9223372036854775807 - (- 9223372036854775808)) sdiv 2 = (9223372036854775807 :: int) \<and>
   fst (split exact_float64 decimal_sqltypes scenario_sqlparser (scenario_splitter 2) SignedType
          (minMaxResult SignedType ''-9223372036854775808'' ''9223372036854775807'') empty_heap) =
     Inr [\<lparr>Sql = ''select * from t'', BindVariables = None, RowCount = 0\<rparr>]"
proof -
  have d3: "div_int64 ((- 9223372036854775799) - 9223372036854775801) 3 = Inr 5"
    by (simp add: div_int64_def signed_divide_int_def)
  have d3': "div_int64 (- 18446744073709551600) 3 = Inr 5"
    by (simp add: div_int64_def signed_divide_int_def)
  have d2: "div_int64 18446744073709551615 2 = Inr 0"
    by (simp add: div_int64_def signed_divide_int_def)
  have l: "forSigned (\<lambda>i. BuildValue_int64 decimal_sqltypes (9223372036854775801 + 5 * i)) 3 1 [] =
      Inr [Value SignedType ''9223372036854775806'', Value SignedType ''-9223372036854775805'']"
  proof -
    have "forSigned (\<lambda>i. BuildValue_int64 decimal_sqltypes (9223372036854775801 + 5 * i)) 3 1 [] =
        Inr ([] @ map (\<lambda>k. Value SignedType
            (show_decimal (sint (9223372036854775801 + 5 * (1 + of_nat k :: int64)))))
          [0..<nat (sint (3 :: int64) - sint (1 :: int64))])"
      by (rule forSigned_total [where f = "\<lambda>i. Value SignedType
            (show_decimal (sint (9223372036854775801 + 5 * i)))"])
        (simp add: decimal_sqltypes_simps)
    also have "\<dots> = Inr [Value SignedType ''9223372036854775806'',
        Value SignedType ''-9223372036854775805'']"
      by (simp add: upt_rec show_extremes)
    finally show ?thesis .
  qed
  have b3: "fst (splitBoundaries exact_float64 decimal_sqltypes (scenario_splitter 3) SignedType
          (minMaxResult SignedType ''9223372036854775801'' ''-9223372036854775799'')) =
     Inr [Value SignedType ''9223372036854775806'', Value SignedType ''-9223372036854775805'']"
    by (simp add: splitBoundaries_def IsSigned_def splitBoundariesIntColumn_def minMaxResult_def
        minMaxCells_row IsNull_def decimal_sqltypes_simps(1) parse_extremes scenario_splitter_fields
        word_sless_alt d3' l)
  have b2: "fst (splitBoundaries exact_float64 decimal_sqltypes (scenario_splitter 2) SignedType
          (minMaxResult SignedType ''-9223372036854775808'' ''9223372036854775807'')) = Inr []"
    by (simp add: splitBoundaries_def IsSigned_def splitBoundariesIntColumn_def minMaxResult_def
        minMaxCells_row IsNull_def decimal_sqltypes_simps(1) parse_extremes scenario_splitter_fields
        word_sless_alt d2 ret_def)
  have exact: "(9223372036854775807 - (- 9223372036854775808)) sdiv 2 = (9223372036854775807 :: int)"
    by (simp add: signed_divide_int_def)
  have notinc: "\<not> ((9223372036854775801 + 5 * 1 :: int64) <s 9223372036854775801 + 5 * 2)"
    by (simp add: word_sless_alt)
  have pos: "(0 :: int64) <s 5"
    by (simp add: word_sless_alt)
  show ?thesis
    using d3 pos b3 notinc exact split_no_boundaries [OF b2, of scenario_sqlparser empty_heap]
    by (simp add: scenario_splitter_fields)
qed

section \<open>Unsigned integer columns\<close>





lemma parse_unsigned:
  "decimal_ParseUint64 (Value UnsignedType ''0'') = Inr 0"
  "decimal_ParseUint64 (Value UnsignedType ''100'') = Inr 100"
  "decimal_ParseUint64 (Value UnsignedType ''10'') = Inr 10"
  "decimal_ParseUint64 (Value UnsignedType ''5'') = Inr 5"
  by code_simp+






text \<open>
  Each of the four checks can stop the computation; none of them is idle.
\<close>

lemma checked_operations_fault:
  "checked_sub 5 10 = Inl SubtractionUnderflow"
  "checked_div 100 0 = Inl DivisionByZero"
  "checked_mul 9223372036854775808 2 = Inl MultiplicationOverflow"
  "checked_add 18446744073709551615 1 = Inl AdditionOverflow"
  by (simp_all add: checked_sub_def checked_div_def checked_mul_def checked_add_def)

text \<open>
  Both hypotheses are used. A result whose first number is above the second is not the
  minimum and maximum of a column; on such a result, 10 and 5 with two splits, the
  subtraction \<open>5 - 10\<close> wraps around to \<open>2^64 - 5\<close>, which the checked function
  reports and on which the function of the source goes on to the boundary
  \<open>10 + (2^64 - 5) div 2\<close>. A splitter with a split count of zero, which
  \<open>NewQuerySplitter\<close> never builds, makes the division panic.
\<close>

lemma show_wrapped:
  "show_decimal 9223372036854775815 = ''9223372036854775815''"
  by code_simp

lemma unordered_result_faults:
  "splitBoundariesUintColumn_checked decimal_sqltypes (scenario_splitter 2)
     (minMaxResult UnsignedType ''10'' ''5'') = Inl SubtractionUnderflow"
  "fst (splitBoundariesUintColumn decimal_sqltypes (scenario_splitter 2)
     (minMaxResult UnsignedType ''10'' ''5'')) = Inr [Value UnsignedType ''9223372036854775815'']"
proof -
  show "splitBoundariesUintColumn_checked decimal_sqltypes (scenario_splitter 2)
     (minMaxResult UnsignedType ''10'' ''5'') = Inl SubtractionUnderflow"
    by (simp add: splitBoundariesUintColumn_checked_def minMaxResult_def minMaxCells_row IsNull_def
        decimal_sqltypes_simps(2) parse_unsigned checked_sub_def)
  have d: "div_uint64 (5 - 10) 2 = Inr 9223372036854775805"
    by (simp add: div_uint64_def)
  have l: "forUnsigned (\<lambda>i. BuildValue_uint64 decimal_sqltypes (10 + 9223372036854775805 * i)) 2 1 [] =
      Inr [Value UnsignedType ''9223372036854775815'']"
  proof -
    have "forUnsigned (\<lambda>i. BuildValue_uint64 decimal_sqltypes (10 + 9223372036854775805 * i)) 2 1 [] =
        Inr ([] @ map (\<lambda>k. Value UnsignedType
            (show_decimal (uint (10 + 9223372036854775805 * (1 + of_nat k :: uint64)))))
          [0..<unat (2 :: uint64) - unat (1 :: uint64)])"
      by (rule forUnsigned_total [where f = "\<lambda>i. Value UnsignedType
            (show_decimal (uint (10 + 9223372036854775805 * i)))"])
        (simp add: decimal_sqltypes_simps)
    also have "\<dots> = Inr [Value UnsignedType ''9223372036854775815'']"
      by (simp add: upt_rec show_wrapped)
    finally show ?thesis .
  qed
  show "fst (splitBoundariesUintColumn decimal_sqltypes (scenario_splitter 2)
     (minMaxResult UnsignedType ''10'' ''5'')) = Inr [Value UnsignedType ''9223372036854775815'']"
    using d l
    by (simp add: splitBoundariesUintColumn_def minMaxResult_def minMaxCells_row IsNull_def
        decimal_sqltypes_simps(2) parse_unsigned scenario_splitter_fields word_sless_alt)
qed

lemma zero_count_faults:
  "splitBoundariesUintColumn_checked decimal_sqltypes ((scenario_splitter 2)\<lparr>splitCount := 0\<rparr>)
     (minMaxResult UnsignedType ''0'' ''100'') = Inl DivisionByZero"
  "fst (splitBoundariesUintColumn decimal_sqltypes ((scenario_splitter 2)\<lparr>splitCount := 0\<rparr>)
     (minMaxResult UnsignedType ''0'' ''100'')) = Inl PanicDivideByZero"
  by (simp_all add: splitBoundariesUintColumn_checked_def splitBoundariesUintColumn_def
      minMaxResult_def minMaxCells_row IsNull_def
      decimal_sqltypes_simps(2) parse_unsigned checked_sub_def checked_div_def div_uint64_def)

end
